theory Spec2Isabelle
  imports Complex_Main "HOL-Library.Sublist" "HOL-Library.Multiset"
begin

section \<open>JavaScript values used by the sources\<close>

text \<open>
  Names, descriptions and messages are modelled as \<^typ>\<open>string\<close>: the sources compare
  them, test them for emptiness and concatenate them, and never look at a character other
  than the dot. An optional field of a zod object (\<open>z.string().optional()\<close>) is an
  \<^typ>\<open>string option\<close>: \<open>None\<close> is \<open>undefined\<close>. Alert thresholds are \<^typ>\<open>real\<close>.
\<close>

text \<open>The exceptions a step or helper can end with: \<open>throw new Error(msg)\<close> written in
  the sources, the \<open>TypeError\<close> of a property read on \<open>undefined\<close>, and an exception that
  an external collaborator (the database engine, the SQL generator) raises and the sources
  let through unchanged.\<close>

datatype error = Error string | TypeError string | External string

text \<open>Truthiness of \<open>string | undefined\<close>: \<open>undefined\<close> and \<open>""\<close> are falsy.\<close>

definition truthy :: "string option \<Rightarrow> bool" where
  "truthy s = (case s of None \<Rightarrow> False | Some t \<Rightarrow> t \<noteq> [])"

text \<open>\<open>x || null\<close> on an optional string; \<open>None\<close> in the result is SQL \<open>NULL\<close>.\<close>

definition or_null :: "string option \<Rightarrow> string option" where
  "or_null s = (if truthy s then s else None)"

text \<open>\<open>x || null\<close> on \<open>number | null | undefined\<close>: the number \<open>0\<close> is falsy.\<close>

definition num_or_null :: "real option \<Rightarrow> real option" where
  "num_or_null x = (case x of None \<Rightarrow> None | Some v \<Rightarrow> if v = 0 then None else Some v)"

text \<open>\<open>a || b\<close> where \<open>a\<close> is an optional string and \<open>b\<close> a string.\<close>

definition or_else :: "string option \<Rightarrow> string \<Rightarrow> string" where
  "or_else a b = (case a of None \<Rightarrow> b | Some t \<Rightarrow> if t = [] then b else t)"

text \<open>
  JavaScript numbers. \<open>z.number()\<close> lets every finite number and the two infinities
  through, integers or not; a finite number is modelled as the real it denotes (\<open>-0\<close> as
  \<open>0\<close>: the two compare equal, print alike and index alike).
\<close>

datatype number = Finite real | PosInfinity | NegInfinity | NaN

text \<open>The tests \<open>i < 0\<close> and \<open>i >= xs.length\<close>; a comparison with \<open>NaN\<close> is false.\<close>

definition lt_zero :: "number \<Rightarrow> bool" where
  "lt_zero i = (case i of Finite r \<Rightarrow> r < 0 | NegInfinity \<Rightarrow> True | _ \<Rightarrow> False)"

definition ge_length :: "number \<Rightarrow> nat \<Rightarrow> bool" where
  "ge_length i n = (case i of Finite r \<Rightarrow> real n \<le> r | PosInfinity \<Rightarrow> True | _ \<Rightarrow> False)"

text \<open>The read \<open>xs[i]\<close> of an array: the element when \<open>i\<close> is an integer from \<open>0\<close> to
  \<open>xs.length - 1\<close>, and \<open>undefined\<close> (\<open>None\<close>) for every other number.\<close>

definition element :: "'a list \<Rightarrow> number \<Rightarrow> 'a option" where
  "element xs i =
     (case i of
        Finite r \<Rightarrow>
          if 0 \<le> r \<and> r = of_int \<lfloor>r\<rfloor> \<and> nat \<lfloor>r\<rfloor> < length xs
          then Some (xs ! nat \<lfloor>r\<rfloor>) else None
      | _ \<Rightarrow> None)"

text \<open>The decimal notation of an integer.\<close>

definition digits :: string where
  "digits = ''0123456789''"

fun decimal_nat :: "nat \<Rightarrow> string" where
  "decimal_nat n =
     (if n < 10 then [digits ! n]
      else decimal_nat (n div 10) @ [digits ! (n mod 10)])"

declare decimal_nat.simps [simp del]

definition decimal :: "int \<Rightarrow> string" where
  "decimal i = (if i < 0 then CHR ''-'' # decimal_nat (nat (- i)) else decimal_nat (nat i))"

text \<open>
  Number-to-string conversion, as template literals and \<open>Array.prototype.join\<close> apply it.
  An integer of magnitude below \<open>2^53\<close> is printed in decimal notation with all its digits.
  For the other finite numbers (fractions, and large numbers, which are printed with the
  shortest digits that read back as the same double, in exponent form from \<open>1e21\<close> on) the
  digits are not modelled: they are what the parameter \<open>fmt\<close> gives.
\<close>

definition Number_toString :: "(real \<Rightarrow> string) \<Rightarrow> number \<Rightarrow> string" where
  "Number_toString fmt n =
     (case n of
        Finite r \<Rightarrow>
          if r = of_int \<lfloor>r\<rfloor> \<and> \<bar>r\<bar> < 9007199254740992 then decimal \<lfloor>r\<rfloor> else fmt r
      | PosInfinity \<Rightarrow> ''Infinity''
      | NegInfinity \<Rightarrow> ''-Infinity''
      | NaN \<Rightarrow> ''NaN'')"

text \<open>\<open>xs.join(sep)\<close>.\<close>

fun join :: "string \<Rightarrow> string list \<Rightarrow> string" where
  "join sep [] = []"
| "join sep [x] = x"
| "join sep (x # y # ys) = x @ sep @ join sep (y # ys)"

text \<open>
  The SQL text that \<open>runQuery\<close> receives is modelled with all its characters, as the list of
  its UTF-16 code units; \<open>units\<close> gives the code units of a text of the ASCII range.
\<close>

type_synonym code_units = "nat list"

definition units :: "string \<Rightarrow> code_units" where
  "units s = map of_char s"

text \<open>\<open>s.trim()\<close> removes the white space and the line terminators of ECMA-262 from both
  ends: tab, line feed, vertical tab, form feed, carriage return, space, no-break space,
  the other space separators of Unicode (\<open>U+1680\<close>, \<open>U+2000\<close> to \<open>U+200A\<close>, \<open>U+202F\<close>,
  \<open>U+205F\<close>, \<open>U+3000\<close>), the line and paragraph separators \<open>U+2028\<close> and \<open>U+2029\<close>, and the
  byte order mark \<open>U+FEFF\<close>.\<close>

definition is_space :: "nat \<Rightarrow> bool" where
  "is_space c =
     (c \<in> set [0x0009, 0x000A, 0x000B, 0x000C, 0x000D, 0x0020, 0x00A0, 0x1680, 0x2028,
                0x2029, 0x202F, 0x205F, 0x3000, 0xFEFF]
      \<or> (0x2000 \<le> c \<and> c \<le> 0x200A))"

definition trim :: "code_units \<Rightarrow> code_units" where
  "trim s = rev (dropWhile is_space (rev (dropWhile is_space s)))"

text \<open>\<open>s.replace(/;$/, '')\<close>: the pattern is tried at every position from the left; it
  matches a semicolon (code unit \<open>0x3B\<close>) that is followed by the end of the input, and the
  first match is replaced by the empty string.\<close>

fun replace_semicolon_end :: "code_units \<Rightarrow> code_units" where
  "replace_semicolon_end [] = []"
| "replace_semicolon_end (c # cs) =
     (if c = 0x3B \<and> cs = [] then [] else c # replace_semicolon_end cs)"

text \<open>\<open>s.includes('.')\<close> and \<open>s.split('.')\<close>. The split of a text is never the empty
  list, so the second case of the inner \<open>case\<close> does not arise.\<close>

definition includes_dot :: "string \<Rightarrow> bool" where
  "includes_dot s = (CHR ''.'' \<in> set s)"

fun split_dot :: "string \<Rightarrow> string list" where
  "split_dot [] = [[]]"
| "split_dot (c # cs) =
     (if c = CHR ''.'' then [] # split_dot cs
      else (case split_dot cs of p # ps \<Rightarrow> (c # p) # ps | [] \<Rightarrow> [[c]]))"


section \<open>The database\<close>

text \<open>
  The tables that \<open>ensureTables\<close> creates. A nullable column is an option type;
  \<open>created_at\<close> is the value of \<open>NOW()\<close> at the insertion, a natural number here; the
  JSONB column \<open>columns\<close> holds the serialised list of column names.
\<close>

record kpi_row =
  kpi_name :: string
  kpi_description :: "string option"
  kpi_formula :: "string option"
  kpi_table_name :: "string option"
  kpi_columns :: "string list option"
  kpi_created_at :: nat

record insight_row =
  ins_id :: nat
  ins_name :: "string option"
  ins_description :: "string option"
  ins_kpi_name :: "string option"
  ins_formula :: "string option"
  ins_schedule :: "string option"
  ins_exec_time :: "string option"
  ins_alert_high :: "real option"
  ins_alert_low :: "real option"
  ins_created_at :: nat

text \<open>One row of \<open>information_schema.columns\<close>.\<close>

record column_info =
  c_table_schema :: string
  c_table_name :: string
  c_column_name :: string
  c_data_type :: string
  c_ordinal_position :: nat

record db =
  kpi :: "kpi_row list"
  insight :: "insight_row list"
  insight_id_seq :: nat
  information_schema_columns :: "column_info list"


section \<open>KPI persistence\<close>

text \<open>
  \<open>INSERT INTO kpi (name, description, formula, table_name, columns) VALUES ($1..$5)
  ON CONFLICT (name) DO UPDATE SET description = EXCLUDED.description,
  formula = EXCLUDED.formula, table_name = EXCLUDED.table_name, columns = EXCLUDED.columns\<close>,
  executed at time \<open>now\<close>: a row whose \<open>name\<close> equals \<open>$1\<close> is updated in the four columns
  of the \<open>SET\<close> list; when there is none, a new row is appended, with the default
  \<open>created_at\<close>.
\<close>

definition kpi_upsert ::
  "nat \<Rightarrow> string \<Rightarrow> string option \<Rightarrow> string option \<Rightarrow> string option \<Rightarrow> string list option
     \<Rightarrow> kpi_row list \<Rightarrow> kpi_row list" where
  "kpi_upsert now n d f t c rows =
     (if n \<in> set (map kpi_name rows)
      then map (\<lambda>r. if kpi_name r = n
                     then r\<lparr>kpi_description := d, kpi_formula := f,
                            kpi_table_name := t, kpi_columns := c\<rparr>
                     else r) rows
      else rows @ [\<lparr>kpi_name = n, kpi_description = d, kpi_formula = f,
                     kpi_table_name = t, kpi_columns = c, kpi_created_at = now\<rparr>])"

text \<open>The argument of \<open>insertKPI\<close> in \<open>db_shared.ts\<close>.\<close>

record kpi_data =
  k_name :: string
  k_description :: "string option"
  k_formula :: string
  k_table_name :: "string option"
  k_columns :: "string list option"

definition insertKPI :: "nat \<Rightarrow> kpi_data \<Rightarrow> db \<Rightarrow> db" where
  "insertKPI now data s =
     s\<lparr>kpi := kpi_upsert now (k_name data) (or_null (k_description data))
                  (Some (k_formula data)) (or_null (k_table_name data)) (k_columns data)
                  (kpi s)\<rparr>"

text \<open>The context of \<open>saveKPITool\<close>; the tool returns \<open>success\<close> and \<open>message\<close>.\<close>

record save_kpi_context =
  kc_name :: string
  kc_description :: "string option"
  kc_formula :: string
  kc_table :: "string option"
  kc_columns :: "string list option"

record tool_result =
  success :: bool
  message :: string

definition saveKPITool :: "nat \<Rightarrow> save_kpi_context \<Rightarrow> db \<Rightarrow> tool_result \<times> db" where
  "saveKPITool now ctx s =
     (\<lparr>success = True,
       message = ''KPI '' @ [CHR 0x27] @ kc_name ctx @ [CHR 0x27] @ '' saved successfully''\<rparr>,
      s\<lparr>kpi := kpi_upsert now (kc_name ctx) (or_null (kc_description ctx))
                  (Some (kc_formula ctx)) (or_null (kc_table ctx)) (kc_columns ctx) (kpi s)\<rparr>)"


section \<open>Insight persistence\<close>

text \<open>
  \<open>INSERT INTO insight (name, description, kpi_name, formula, schedule, exec_time,
  alert_high, alert_low) VALUES ($1..$8)\<close> at time \<open>now\<close>. The column \<open>kpi_name\<close>
  references \<open>kpi(name)\<close>: the engine rejects a value that is not \<open>NULL\<close> and names no
  row of \<open>kpi\<close>. The \<open>id\<close> is the next value of the table's sequence. (The sequence value
  that a rejected insertion uses up is not modelled: no code reads it.)
\<close>

definition insight_insert ::
  "nat \<Rightarrow> string option \<Rightarrow> string option \<Rightarrow> string option \<Rightarrow> string option
     \<Rightarrow> string option \<Rightarrow> string option \<Rightarrow> real option \<Rightarrow> real option \<Rightarrow> db \<Rightarrow> error + db" where
  "insight_insert now n d k f sch ex hi lo s =
     (case k of
        Some kn \<Rightarrow>
          if kn \<in> set (map kpi_name (kpi s))
          then Inr (s\<lparr>insight := insight s @
                      [\<lparr>ins_id = Suc (insight_id_seq s), ins_name = n, ins_description = d,
                        ins_kpi_name = k, ins_formula = f, ins_schedule = sch,
                        ins_exec_time = ex, ins_alert_high = hi, ins_alert_low = lo,
                        ins_created_at = now\<rparr>],
                    insight_id_seq := Suc (insight_id_seq s)\<rparr>)
          else Inl (External ''foreign key violation on insight.kpi_name'')
      | None \<Rightarrow>
          Inr (s\<lparr>insight := insight s @
                      [\<lparr>ins_id = Suc (insight_id_seq s), ins_name = n, ins_description = d,
                        ins_kpi_name = k, ins_formula = f, ins_schedule = sch,
                        ins_exec_time = ex, ins_alert_high = hi, ins_alert_low = lo,
                        ins_created_at = now\<rparr>],
                    insight_id_seq := Suc (insight_id_seq s)\<rparr>))"

text \<open>The argument of \<open>insertInsight\<close> in \<open>db_shared.ts\<close>; \<open>null\<close> and \<open>undefined\<close> are both
  \<open>None\<close>.\<close>

record insight_data =
  i_name :: string
  i_description :: "string option"
  i_kpi_name :: "string option"
  i_formula :: string
  i_schedule :: "string option"
  i_exec_time :: "string option"
  i_alert_high :: "real option"
  i_alert_low :: "real option"


text \<open>\<open>saveInsightTool\<close> of \<open>db_tools.ts\<close>, which issues the statement itself.\<close>

definition saveInsightTool :: "nat \<Rightarrow> insight_data \<Rightarrow> db \<Rightarrow> error + tool_result \<times> db" where
  "saveInsightTool now ctx s =
     (case insight_insert now (Some (i_name ctx)) (or_null (i_description ctx))
             (or_null (i_kpi_name ctx)) (Some (i_formula ctx)) (or_null (i_schedule ctx))
             (or_null (i_exec_time ctx)) (num_or_null (i_alert_high ctx))
             (num_or_null (i_alert_low ctx)) s of
        Inl e \<Rightarrow> Inl e
      | Inr s' \<Rightarrow>
          Inr (\<lparr>success = True,
                message = ''Insight '' @ [CHR 0x27] @ i_name ctx @ [CHR 0x27]
                            @ '' saved successfully''\<rparr>, s'))"



section \<open>Bounded query execution\<close>

text \<open>A result row: column names with the values rendered as text.\<close>

type_synonym row = "(string \<times> string) list"

text \<open>The template literal \<open>`${sql.trim().replace(/;$/, '')} LIMIT ${sample};`\<close>.\<close>

definition limitedSql :: "(real \<Rightarrow> string) \<Rightarrow> code_units \<Rightarrow> number \<Rightarrow> code_units" where
  "limitedSql fmt sql sample =
     replace_semicolon_end (trim sql) @ units '' LIMIT ''
       @ units (Number_toString fmt sample) @ units '';''"

text \<open>\<open>runQuery(sql, sample = 5)\<close>: \<open>query\<close> stands for \<open>pool.query\<close>, the engine that
  receives the text and answers with rows or an error; an absent second argument takes
  the default.\<close>

definition runQuery ::
  "(real \<Rightarrow> string) \<Rightarrow> (code_units \<Rightarrow> error + 'r list) \<Rightarrow> code_units \<Rightarrow> number option
     \<Rightarrow> error + 'r list" where
  "runQuery fmt query sql sample =
     query (limitedSql fmt sql (case sample of None \<Rightarrow> Finite 5 | Some n \<Rightarrow> n))"

text \<open>\<open>runQueryTool\<close>: \<open>limit\<close> is \<open>z.number().optional().default(5)\<close>.\<close>

definition runQueryTool ::
  "(real \<Rightarrow> string) \<Rightarrow> (code_units \<Rightarrow> error + 'r list) \<Rightarrow> code_units \<Rightarrow> number option
     \<Rightarrow> error + 'r list" where
  "runQueryTool fmt query sql limit =
     query (limitedSql fmt sql (case limit of None \<Rightarrow> Finite 5 | Some n \<Rightarrow> n))"


section \<open>Schema introspection\<close>

text \<open>An element of the result of \<open>listColumns\<close>.\<close>

record column =
  column_name :: string
  data_type :: string

text \<open>\<open>SELECT column_name, data_type FROM information_schema.columns WHERE table_schema=$1
  AND table_name=$2 ORDER BY ordinal_position\<close>.\<close>

definition select_columns :: "column_info list \<Rightarrow> string \<Rightarrow> string \<Rightarrow> column list" where
  "select_columns cat schema tbl =
     map (\<lambda>r. \<lparr>column_name = c_column_name r, data_type = c_data_type r\<rparr>)
       (sort_key c_ordinal_position
          (filter (\<lambda>r. c_table_schema r = schema \<and> c_table_name r = tbl) cat))"

text \<open>The schema and the table name that \<open>listColumns\<close> passes to the statement.\<close>

definition schema_and_table :: "string \<Rightarrow> string \<times> string" where
  "schema_and_table t =
     (if includes_dot t
      then (let parts = split_dot t in (parts ! 0, parts ! 1))
      else (''public'', t))"

definition listColumns :: "db \<Rightarrow> string \<Rightarrow> column list" where
  "listColumns s t =
     (case schema_and_table t of
        (schema, tableName) \<Rightarrow> select_columns (information_schema_columns s) schema tableName)"

definition listColumnsTool :: "db \<Rightarrow> string \<Rightarrow> column list" where
  "listColumnsTool s t =
     (case schema_and_table t of
        (schema, tableName) \<Rightarrow> select_columns (information_schema_columns s) schema tableName)"


section \<open>Workflow steps\<close>

text \<open>
  A step's \<open>execute\<close> ends in one of three ways: it pauses with its suspend payload
  (\<open>return await suspend(...)\<close>), it returns its output, or it throws. \<open>resumeData\<close> is an
  option: \<open>None\<close> is \<open>undefined\<close>, \<open>Some r\<close> is an object of the step's \<open>resumeSchema\<close>.
\<close>

datatype ('s, 'o) outcome = Suspended 's | Completed 'o

definition quote :: "string \<Rightarrow> string" where
  "quote s = [CHR 0x27] @ s @ [CHR 0x27]"

subsection \<open>The index-based KPI workflow (\<open>kpi_workflow.ts\<close>)\<close>

text \<open>\<open>xs.map((x, index) => ...)\<close>: the elements with their positions.\<close>

definition with_index :: "'a list \<Rightarrow> (nat \<times> 'a) list" where
  "with_index xs = zip [0..<length xs] xs"

record select_tables_suspend =
  availableTables :: "(nat \<times> string) list"
  st_message :: string

definition select_tables_message :: string where
  \<open>select_tables_message =
     ''Select tables by providing their index numbers. Example: {"selectedTableIndexes": [0]}''\<close>

text \<open>\<open>selectedTableIndexes.filter(i => i < 0 || i >= tables.length)\<close>.\<close>

definition invalidIndexes :: "string list \<Rightarrow> number list \<Rightarrow> number list" where
  "invalidIndexes tables selectedTableIndexes =
     filter (\<lambda>i. lt_zero i \<or> ge_length i (length tables)) selectedTableIndexes"

definition invalid_table_indexes_message ::
  "(real \<Rightarrow> string) \<Rightarrow> string list \<Rightarrow> number list \<Rightarrow> string" where
  "invalid_table_indexes_message fmt tables invalid =
     ''Invalid table indexes: '' @ join '', '' (map (Number_toString fmt) invalid)
       @ ''. Must be between 0 and ''
       @ Number_toString fmt (Finite (real (length tables) - 1))"

text \<open>\<open>selectTablesStep\<close>: the input is \<open>tables\<close>, the resume data is the one field
  \<open>selectedTableIndexes\<close>, the output is \<open>selectedTables\<close>, the reads \<open>tables[i]\<close> (\<open>None\<close>
  where the read gives \<open>undefined\<close>: an index in range that is not an integer).\<close>

definition selectTablesStep ::
  "(real \<Rightarrow> string) \<Rightarrow> string list \<Rightarrow> number list option
     \<Rightarrow> error + (select_tables_suspend, string option list) outcome" where
  "selectTablesStep fmt tables resumeData =
     (case resumeData of
        None \<Rightarrow> Inr (Suspended \<lparr>availableTables = with_index tables,
                                 st_message = select_tables_message\<rparr>)
      | Some selectedTableIndexes \<Rightarrow>
          if length selectedTableIndexes = 0
          then Inr (Suspended \<lparr>availableTables = with_index tables,
                                st_message = select_tables_message\<rparr>)
          else if length (invalidIndexes tables selectedTableIndexes) > 0
          then Inl (Error (invalid_table_indexes_message fmt tables
                             (invalidIndexes tables selectedTableIndexes)))
          else Inr (Completed (map (element tables) selectedTableIndexes)))"

text \<open>\<open>listColumnsStep\<close>: the loop assigns \<open>columns[table]\<close> for each selected table.\<close>

record columns_input =
  ci_columns :: "string \<rightharpoonup> column list"
  ci_selectedTables :: "string list"

fun listColumns_loop ::
  "db \<Rightarrow> string list \<Rightarrow> (string \<rightharpoonup> column list) \<Rightarrow> (string \<rightharpoonup> column list)" where
  "listColumns_loop s [] columns = columns"
| "listColumns_loop s (t # ts) columns =
     listColumns_loop s ts (columns(t \<mapsto> listColumnsTool s t))"

definition listColumnsStep :: "db \<Rightarrow> string list \<Rightarrow> columns_input" where
  "listColumnsStep s selectedTables =
     \<lparr>ci_columns = listColumns_loop s selectedTables Map.empty,
      ci_selectedTables = selectedTables\<rparr>"

text \<open>\<open>selectColumnsAndDetailsStep\<close>. The resume object \<open>selectedColumnsByTable\<close> is the list
  of its entries in the order of \<open>Object.entries\<close>.\<close>

record columns_resume =
  selectedColumnsByTable :: "(string \<times> number list) list"
  cr_kpiName :: string
  cr_kpiDescription :: string
  cr_useAIGeneration :: bool
  cr_sqlIntent :: "string option"
  cr_manualSQL :: "string option"

record columns_suspend =
  availableColumns :: "string \<rightharpoonup> (nat \<times> column) list"
  cs_message :: string

record kpi_details =
  selectedColumns :: "string list"
  selectedTables :: "string list"
  kpiName :: string
  kpiDescription :: string
  useAIGeneration :: bool
  sqlIntent :: "string option"
  manualSQL :: "string option"

definition select_columns_message :: string where
  \<open>select_columns_message =
     ''Provide: 1) selectedColumnsByTable (e.g., {"public.bitwise_num": [0, 1]}), 2) kpiName, 3) kpiDescription, 4) useAIGeneration (true/false), 5) sqlIntent OR manualSQL''\<close>

text \<open>
  The read \<open>columns[table]\<close>. \<open>columns\<close> is a plain object: the read finds the array stored
  under the key, and for a key that is not stored a member that the object inherits from
  \<open>Object.prototype\<close>: a function (of which the loops use the \<open>length\<close>, its number of
  parameters) or, under \<open>__proto__\<close>, the prototype object itself. Without either the
  read gives \<open>undefined\<close> (\<open>None\<close>).
\<close>

datatype member = Columns "column list" | Function nat | Prototype

definition object_prototype :: "string \<Rightarrow> member option" where
  "object_prototype k =
     (if k \<in> set [''__defineGetter__'', ''__defineSetter__''] then Some (Function 2)
      else if k \<in> set [''constructor'', ''hasOwnProperty'', ''isPrototypeOf'',
                        ''propertyIsEnumerable'', ''__lookupGetter__'', ''__lookupSetter__'']
      then Some (Function 1)
      else if k \<in> set [''toString'', ''valueOf'', ''toLocaleString''] then Some (Function 0)
      else if k = ''__proto__'' then Some Prototype
      else None)"

definition read_member :: "(string \<rightharpoonup> column list) \<Rightarrow> string \<Rightarrow> member option" where
  "read_member columns k =
     (case columns k of Some cols \<Rightarrow> Some (Columns cols) | None \<Rightarrow> object_prototype k)"

text \<open>The loop that prepares \<open>columnsWithIndexes\<close>; \<open>columns[table].map(...)\<close> throws when the
  read gives \<open>undefined\<close> and when it gives an inherited member, which has no \<open>map\<close>.\<close>

fun columnsWithIndexes ::
  "(string \<rightharpoonup> column list) \<Rightarrow> string list \<Rightarrow> (string \<rightharpoonup> (nat \<times> column) list)
     \<Rightarrow> error + (string \<rightharpoonup> (nat \<times> column) list)" where
  "columnsWithIndexes columns [] acc = Inr acc"
| "columnsWithIndexes columns (t # ts) acc =
     (case read_member columns t of
        None \<Rightarrow> Inl (TypeError ''Cannot read properties of undefined (reading 'map')'')
      | Some (Columns cols) \<Rightarrow> columnsWithIndexes columns ts (acc(t \<mapsto> with_index cols))
      | Some _ \<Rightarrow> Inl (TypeError ''columns[table].map is not a function''))"

definition table_not_found_message :: "string \<Rightarrow> string" where
  "table_not_found_message t = ''Table '' @ quote t @ '' not found in selected tables''"

text \<open>\<open>index >= columns[table].length\<close> and \<open>columns[table].length - 1\<close>: the prototype object
  has no \<open>length\<close>, the comparison with \<open>undefined\<close> is false and the difference is \<open>NaN\<close>.\<close>

definition ge_member_length :: "number \<Rightarrow> member \<Rightarrow> bool" where
  "ge_member_length i m =
     (case m of Columns cols \<Rightarrow> ge_length i (length cols) | Function n \<Rightarrow> ge_length i n
      | Prototype \<Rightarrow> False)"

definition member_length_minus_one :: "member \<Rightarrow> number" where
  "member_length_minus_one m =
     (case m of Columns cols \<Rightarrow> Finite (real (length cols) - 1)
      | Function n \<Rightarrow> Finite (real n - 1) | Prototype \<Rightarrow> NaN)"

text \<open>The read \<open>columns[table][index]\<close>: an element of the array, \<open>undefined\<close> otherwise (a
  function and the prototype object have no property named by a number).\<close>

definition member_element :: "member \<Rightarrow> number \<Rightarrow> column option" where
  "member_element m i = (case m of Columns cols \<Rightarrow> element cols i | _ \<Rightarrow> None)"

definition invalid_column_index_message ::
  "(real \<Rightarrow> string) \<Rightarrow> number \<Rightarrow> string \<Rightarrow> member \<Rightarrow> string" where
  "invalid_column_index_message fmt i t m =
     ''Invalid column index '' @ Number_toString fmt i @ '' for table '' @ quote t
       @ ''. Must be between 0 and '' @ Number_toString fmt (member_length_minus_one m)"

text \<open>The inner loop \<open>for (const index of indexes)\<close>, with the array \<open>selectedColumns\<close> that
  it extends; \<open>columns[table][index].column_name\<close> throws when the read gives
  \<open>undefined\<close>.\<close>

fun convert_indexes ::
  "(real \<Rightarrow> string) \<Rightarrow> string \<Rightarrow> member \<Rightarrow> number list \<Rightarrow> string list
     \<Rightarrow> error + string list" where
  "convert_indexes fmt t m [] acc = Inr acc"
| "convert_indexes fmt t m (i # is) acc =
     (if lt_zero i \<or> ge_member_length i m
      then Inl (Error (invalid_column_index_message fmt i t m))
      else (case member_element m i of
              None \<Rightarrow>
                Inl (TypeError
                       ''Cannot read properties of undefined (reading 'column_name')'')
            | Some c \<Rightarrow> convert_indexes fmt t m is (acc @ [t @ ''.'' @ column_name c])))"

text \<open>The outer loop over \<open>Object.entries(resumeData.selectedColumnsByTable)\<close>.\<close>

fun convert_entries ::
  "(real \<Rightarrow> string) \<Rightarrow> (string \<rightharpoonup> column list) \<Rightarrow> (string \<times> number list) list
     \<Rightarrow> string list \<Rightarrow> error + string list" where
  "convert_entries fmt columns [] acc = Inr acc"
| "convert_entries fmt columns ((t, is) # es) acc =
     (case read_member columns t of
        None \<Rightarrow> Inl (Error (table_not_found_message t))
      | Some m \<Rightarrow>
          (case convert_indexes fmt t m is acc of
             Inl e \<Rightarrow> Inl e
           | Inr acc' \<Rightarrow> convert_entries fmt columns es acc'))"

definition suspend_columns ::
  "columns_input \<Rightarrow> error + (columns_suspend, kpi_details) outcome" where
  "suspend_columns inputData =
     (case columnsWithIndexes (ci_columns inputData) (ci_selectedTables inputData) Map.empty of
        Inl e \<Rightarrow> Inl e
      | Inr cwi \<Rightarrow> Inr (Suspended \<lparr>availableColumns = cwi,
                                    cs_message = select_columns_message\<rparr>))"

definition selectColumnsAndDetailsStep ::
  "(real \<Rightarrow> string) \<Rightarrow> columns_input \<Rightarrow> columns_resume option
     \<Rightarrow> error + (columns_suspend, kpi_details) outcome" where
  "selectColumnsAndDetailsStep fmt inputData resumeData =
     (case resumeData of
        None \<Rightarrow> suspend_columns inputData
      | Some r \<Rightarrow>
          if cr_kpiName r = [] then suspend_columns inputData
          else (case convert_entries fmt (ci_columns inputData) (selectedColumnsByTable r) [] of
                  Inl e \<Rightarrow> Inl e
                | Inr cols \<Rightarrow>
                    Inr (Completed
                      \<lparr>selectedColumns = cols,
                       selectedTables = ci_selectedTables inputData,
                       kpiName = cr_kpiName r,
                       kpiDescription = cr_kpiDescription r,
                       useAIGeneration = cr_useAIGeneration r,
                       sqlIntent = cr_sqlIntent r,
                       manualSQL = cr_manualSQL r\<rparr>)))"

text \<open>\<open>generateSQLStep\<close>. \<open>generateSQLTool\<close> lives in \<open>sql_generator\<close>, which hands the
  request to a language model; it is the parameter \<open>gen\<close>, whose result is the generated
  text (\<open>result.sql\<close>) or the message of the exception it raised.\<close>

record gen_context =
  intent :: string
  g_tables :: "string list"
  g_columns :: "string list"
  g_limit :: int

record sql_output =
  sqlQuery :: string
  so_kpiName :: string
  so_kpiDescription :: string
  so_selectedColumns :: "string list"
  so_selectedTables :: "string list"

definition missing_sql_message :: string where
  "missing_sql_message = ''Either AI generation with intent or manual SQL must be provided''"

definition generateSQLStep ::
  "(gen_context \<Rightarrow> string + string) \<Rightarrow> kpi_details \<Rightarrow> error + sql_output" where
  "generateSQLStep gen inputData =
     (if useAIGeneration inputData \<and> truthy (sqlIntent inputData)
      then (case gen \<lparr>intent = the (sqlIntent inputData),
                       g_tables = selectedTables inputData,
                       g_columns = selectedColumns inputData, g_limit = 10\<rparr> of
              Inl m \<Rightarrow> Inl (External m)
            | Inr sql \<Rightarrow>
                Inr \<lparr>sqlQuery = sql, so_kpiName = kpiName inputData,
                     so_kpiDescription = kpiDescription inputData,
                     so_selectedColumns = selectedColumns inputData,
                     so_selectedTables = selectedTables inputData\<rparr>)
      else if truthy (manualSQL inputData)
      then Inr \<lparr>sqlQuery = the (manualSQL inputData), so_kpiName = kpiName inputData,
                so_kpiDescription = kpiDescription inputData,
                so_selectedColumns = selectedColumns inputData,
                so_selectedTables = selectedTables inputData\<rparr>
      else Inl (Error missing_sql_message))"

text \<open>\<open>confirmAndSaveStep\<close>.\<close>

record confirm_input =
  cf_sqlQuery :: string
  cf_kpiName :: string
  cf_kpiDescription :: string
  previewResults :: "row list"
  cf_selectedColumns :: "string list"
  cf_selectedTables :: "string list"

record confirm_resume =
  confirmed :: bool
  editedSQL :: "string option"

record confirm_suspend =
  su_sqlQuery :: string
  su_previewResults :: "row list"
  su_message :: string

record confirm_output =
  co_kpiName :: string
  co_success :: bool

definition confirm_message :: string where
  "confirm_message =
     ''Review the SQL query and results. Confirm to save or provide edited SQL.''"

definition confirm_suspended :: "confirm_input \<Rightarrow> (confirm_suspend, confirm_output) outcome" where
  "confirm_suspended inputData =
     Suspended \<lparr>su_sqlQuery = cf_sqlQuery inputData,
                su_previewResults = previewResults inputData,
                su_message = confirm_message\<rparr>"

definition confirmAndSaveStep ::
  "nat \<Rightarrow> confirm_input \<Rightarrow> confirm_resume option \<Rightarrow> db
     \<Rightarrow> (confirm_suspend, confirm_output) outcome \<times> db" where
  "confirmAndSaveStep now inputData resumeData s =
     (case resumeData of
        None \<Rightarrow> (confirm_suspended inputData, s)
      | Some r \<Rightarrow>
          if \<not> confirmed r then (confirm_suspended inputData, s)
          else (case saveKPITool now
                       \<lparr>kc_name = cf_kpiName inputData,
                        kc_description = Some (cf_kpiDescription inputData),
                        kc_formula = or_else (editedSQL r) (cf_sqlQuery inputData),
                        kc_table = Some (join '', '' (cf_selectedTables inputData)),
                        kc_columns = Some (cf_selectedColumns inputData)\<rparr> s of
                  (result, s') \<Rightarrow>
                    (Completed \<lparr>co_kpiName = cf_kpiName inputData,
                                co_success = success result\<rparr>, s')))"


subsection \<open>The name-based KPI workflow (\<open>simple_kpi_workflow.ts\<close>)\<close>

record select_table_suspend =
  ts_tables :: "string list"
  ts_message :: string

definition select_table_message :: string where
  "select_table_message =
     ''Select a table by providing the full table name (e.g., public.bitwise_num)''"

text \<open>\<open>selectTableStep\<close>: the resume data is the one field \<open>tableName\<close>, which is also the
  output.\<close>

definition selectTableStep ::
  "string list \<Rightarrow> string option \<Rightarrow> (select_table_suspend, string) outcome" where
  "selectTableStep tables resumeData =
     (if \<not> truthy resumeData
      then Suspended \<lparr>ts_tables = tables, ts_message = select_table_message\<rparr>
      else Completed (the resumeData))"

record define_input =
  di_tableName :: string
  di_columns :: "column list"

record define_resume =
  dr_kpiName :: string
  dr_kpiDescription :: string
  useAI :: bool
  dr_sqlIntent :: "string option"
  dr_manualSQL :: "string option"

record define_suspend =
  ds_tableName :: string
  ds_columns :: "column list"
  ds_message :: string

record define_output =
  do_kpiName :: string
  do_kpiDescription :: string
  do_sqlQuery :: string

definition define_message :: string where
  "define_message =
     ''Provide: kpiName, kpiDescription, useAI (true/false), and either sqlIntent OR manualSQL''"

definition define_error_message :: string where
  "define_error_message =
     ''Provide either sqlIntent (with useAI=true) or manualSQL (with useAI=false)''"

definition define_suspended :: "define_input \<Rightarrow> (define_suspend, define_output) outcome" where
  "define_suspended inputData =
     Suspended \<lparr>ds_tableName = di_tableName inputData, ds_columns = di_columns inputData,
                ds_message = define_message\<rparr>"

definition defineKPIStep ::
  "(gen_context \<Rightarrow> string + string) \<Rightarrow> define_input \<Rightarrow> define_resume option
     \<Rightarrow> error + (define_suspend, define_output) outcome" where
  "defineKPIStep gen inputData resumeData =
     (case resumeData of
        None \<Rightarrow> Inr (define_suspended inputData)
      | Some r \<Rightarrow>
          if dr_kpiName r = [] then Inr (define_suspended inputData)
          else if useAI r \<and> truthy (dr_sqlIntent r)
          then (case gen \<lparr>intent = the (dr_sqlIntent r),
                           g_tables = [di_tableName inputData],
                           g_columns = map (\<lambda>c. di_tableName inputData @ ''.'' @ column_name c)
                                         (di_columns inputData),
                           g_limit = 100\<rparr> of
                  Inl m \<Rightarrow> Inl (External m)
                | Inr sql \<Rightarrow>
                    Inr (Completed \<lparr>do_kpiName = dr_kpiName r,
                                    do_kpiDescription = dr_kpiDescription r,
                                    do_sqlQuery = sql\<rparr>))
          else if \<not> useAI r \<and> truthy (dr_manualSQL r)
          then Inr (Completed \<lparr>do_kpiName = dr_kpiName r,
                                do_kpiDescription = dr_kpiDescription r,
                                do_sqlQuery = the (dr_manualSQL r)\<rparr>)
          else Inl (Error define_error_message))"

text \<open>\<open>saveKPIStep\<close>; its resume data has the shape of \<open>confirmAndSaveStep\<close>'s.\<close>

record save_input =
  sv_kpiName :: string
  sv_kpiDescription :: string
  sv_sqlQuery :: string
  preview :: "row list"

record save_suspend =
  ss_sqlQuery :: string
  ss_preview :: "row list"
  ss_message :: string

record save_output =
  sv_out_kpiName :: string
  sv_out_success :: bool
  sv_out_message :: string

definition save_message :: string where
  "save_message =
     ''Review the SQL and preview. Set confirmed=true to save, or provide editedSQL to modify''"

definition save_suspended :: "save_input \<Rightarrow> (save_suspend, save_output) outcome" where
  "save_suspended inputData =
     Suspended \<lparr>ss_sqlQuery = sv_sqlQuery inputData, ss_preview = preview inputData,
                ss_message = save_message\<rparr>"

definition saveKPIStep ::
  "nat \<Rightarrow> save_input \<Rightarrow> confirm_resume option \<Rightarrow> db
     \<Rightarrow> (save_suspend, save_output) outcome \<times> db" where
  "saveKPIStep now inputData resumeData s =
     (case resumeData of
        None \<Rightarrow> (save_suspended inputData, s)
      | Some r \<Rightarrow>
          if \<not> confirmed r then (save_suspended inputData, s)
          else (case saveKPITool now
                       \<lparr>kc_name = sv_kpiName inputData,
                        kc_description = Some (sv_kpiDescription inputData),
                        kc_formula = or_else (editedSQL r) (sv_sqlQuery inputData),
                        kc_table = None, kc_columns = None\<rparr> s of
                  (result, s') \<Rightarrow>
                    (Completed \<lparr>sv_out_kpiName = sv_kpiName inputData,
                                sv_out_success = success result,
                                sv_out_message = message result\<rparr>, s')))"

subsection \<open>The insight workflow (\<open>insight_workflow.ts\<close>)\<close>

text \<open>An element of \<open>kpis\<close>, the output of \<open>fetchKPIsStep\<close>.\<close>

record kpi_entry =
  ke_name :: string
  ke_formula :: string

record select_kpi_resume =
  sk_kpiName :: string
  sk_insightName :: string
  sk_insightDescription :: string

record select_kpi_suspend =
  availableKPIs :: "string list"
  sk_message :: string

record select_kpi_output =
  ko_kpiName :: string
  kpiFormula :: string
  ko_insightName :: string
  ko_insightDescription :: string

definition select_kpi_message :: string where
  "select_kpi_message = ''Select a KPI and provide insight name and description''"

definition kpi_not_found_message :: "string \<Rightarrow> string" where
  "kpi_not_found_message n = ''KPI '' @ quote n @ '' not found''"

definition select_kpi_suspended ::
  "kpi_entry list \<Rightarrow> (select_kpi_suspend, select_kpi_output) outcome" where
  "select_kpi_suspended kpis =
     Suspended \<lparr>availableKPIs = map ke_name kpis, sk_message = select_kpi_message\<rparr>"

definition selectKPIStep ::
  "kpi_entry list \<Rightarrow> select_kpi_resume option
     \<Rightarrow> error + (select_kpi_suspend, select_kpi_output) outcome" where
  "selectKPIStep kpis resumeData =
     (case resumeData of
        None \<Rightarrow> Inr (select_kpi_suspended kpis)
      | Some r \<Rightarrow>
          if sk_kpiName r = [] \<or> sk_insightName r = [] then Inr (select_kpi_suspended kpis)
          else (case find (\<lambda>k. ke_name k = sk_kpiName r) kpis of
                  None \<Rightarrow> Inl (Error (kpi_not_found_message (sk_kpiName r)))
                | Some selectedKPI \<Rightarrow>
                    Inr (Completed \<lparr>ko_kpiName = sk_kpiName r,
                                    kpiFormula = ke_formula selectedKPI,
                                    ko_insightName = sk_insightName r,
                                    ko_insightDescription = sk_insightDescription r\<rparr>)))"

text \<open>\<open>confirmAndSaveInsightStep\<close>.\<close>

record insight_input =
  ii_kpiName :: string
  insightText :: string
  ii_insightName :: string

record insight_resume =
  ir_confirmed :: bool
  editedInsight :: "string option"

record insight_suspend =
  is_insightText :: string
  is_message :: string

record insight_output =
  io_insightName :: string
  io_success :: bool

definition insight_message :: string where
  "insight_message =
     ''Review the generated insight. Confirm to save or provide edited version.''"

definition insight_suspended :: "insight_input \<Rightarrow> (insight_suspend, insight_output) outcome" where
  "insight_suspended inputData =
     Suspended \<lparr>is_insightText = insightText inputData, is_message = insight_message\<rparr>"

definition confirmAndSaveInsightStep ::
  "nat \<Rightarrow> insight_input \<Rightarrow> insight_resume option \<Rightarrow> db
     \<Rightarrow> error + (insight_suspend, insight_output) outcome \<times> db" where
  "confirmAndSaveInsightStep now inputData resumeData s =
     (case resumeData of
        None \<Rightarrow> Inr (insight_suspended inputData, s)
      | Some r \<Rightarrow>
          if \<not> ir_confirmed r then Inr (insight_suspended inputData, s)
          else (case saveInsightTool now
                       \<lparr>i_name = ii_insightName inputData, i_description = None,
                        i_kpi_name = Some (ii_kpiName inputData),
                        i_formula = or_else (editedInsight r) (insightText inputData),
                        i_schedule = None, i_exec_time = None,
                        i_alert_high = None, i_alert_low = None\<rparr> s of
                  Inl e \<Rightarrow> Inl e
                | Inr (result, s') \<Rightarrow>
                    Inr (Completed \<lparr>io_insightName = ii_insightName inputData,
                                    io_success = success result\<rparr>, s')))"


section \<open>Startup\<close>

text \<open>
  What a process has written to the console and whether it has ended. \<open>ensureTables\<close>
  issues its statements to the database engine; what the callers see of it is whether its
  promise is fulfilled (\<open>Inr ()\<close>) or rejected with an error.
\<close>

datatype console_line = Log string | ErrorLog string error

datatype process_status = Exited int | Running

text \<open>\<open>initDatabase\<close> of \<open>init-db.ts\<close>; the check mark and the cross are written as their
  UTF-8 bytes.\<close>

definition initDatabase :: "error + unit \<Rightarrow> console_line list \<times> process_status" where
  "initDatabase ensureTables =
     (case ensureTables of
        Inr _ \<Rightarrow>
          ([Log ''Initializing database tables...'',
            Log ([CHR 0xE2, CHR 0x9C, CHR 0x93] @ '' Database tables created successfully!''),
            Log ''  - kpi table'',
            Log ''  - insight table''], Exited 0)
      | Inl e \<Rightarrow>
          ([Log ''Initializing database tables...'',
            ErrorLog ([CHR 0xE2, CHR 0x9C, CHR 0x97] @ '' Failed to initialize database:'') e],
           Exited 1))"

text \<open>The top level of \<open>mastra.ts\<close>: \<open>ensureTables().catch(...)\<close>, then the \<open>Mastra\<close> instance
  is built and exported; nothing ends the process.\<close>

definition mastra_startup :: "error + unit \<Rightarrow> console_line list \<times> process_status" where
  "mastra_startup ensureTables =
     (case ensureTables of
        Inr _ \<Rightarrow> ([], Running)
      | Inl e \<Rightarrow> ([ErrorLog ''Failed to initialize database tables:'' e], Running))"


section \<open>Sequences of KPI upserts\<close>

text \<open>The two ways the sources write to \<open>kpi\<close>, each with the time of its statement.\<close>

datatype kpi_op = InsertKPI nat kpi_data | SaveKPITool nat save_kpi_context

fun apply_kpi_op :: "kpi_op \<Rightarrow> db \<Rightarrow> db" where
  "apply_kpi_op (InsertKPI now data) s = insertKPI now data s"
| "apply_kpi_op (SaveKPITool now ctx) s = snd (saveKPITool now ctx s)"

section \<open>Example data\<close>

text \<open>The database of the end-to-end examples: the table \<open>public.sales(id int, amount
  numeric)\<close>, and the KPI \<open>total_amount\<close> stored at time 1.\<close>

definition sales_catalog :: "column_info list" where
  "sales_catalog =
     [\<lparr>c_table_schema = ''public'', c_table_name = ''sales'', c_column_name = ''amount'',
       c_data_type = ''numeric'', c_ordinal_position = 2\<rparr>,
      \<lparr>c_table_schema = ''public'', c_table_name = ''sales'', c_column_name = ''id'',
       c_data_type = ''integer'', c_ordinal_position = 1\<rparr>]"

definition empty_db :: db where
  "empty_db = \<lparr>kpi = [], insight = [], insight_id_seq = 0,
               information_schema_columns = sales_catalog\<rparr>"

definition total_amount_row :: kpi_row where
  "total_amount_row =
     \<lparr>kpi_name = ''total_amount'', kpi_description = Some ''Sum of sales'',
      kpi_formula = Some ''SELECT amount FROM public.sales'',
      kpi_table_name = Some ''public.sales'', kpi_columns = Some [''public.sales.amount''],
      kpi_created_at = 1\<rparr>"

definition sales_db :: db where
  "sales_db = empty_db\<lparr>kpi := [total_amount_row]\<rparr>"

definition total_amount_data :: kpi_data where
  "total_amount_data =
     \<lparr>k_name = ''total_amount'', k_description = Some [],
      k_formula = ''SELECT sum(amount) FROM public.sales'', k_table_name = None,
      k_columns = Some []\<rparr>"

definition total_amount_context :: save_kpi_context where
  "total_amount_context =
     \<lparr>kc_name = ''total_amount'', kc_description = Some ''Total'',
      kc_formula = ''SELECT sum(amount) FROM public.sales'', kc_table = Some ''public.sales'',
      kc_columns = None\<rparr>"

text \<open>The statement of the specification for bounded query execution, in its words: "strips
  a single trailing statement terminator": a text that ends in a semicolon loses that one
  character, any other text is left as it is.\<close>

definition spec_strip_terminator :: "code_units \<Rightarrow> code_units" where
  "spec_strip_terminator t = (if t \<noteq> [] \<and> last t = 0x3B then butlast t else t)"



text \<open>An engine that answers every statement with one row, the text it received.\<close>

definition echo_engine :: "code_units \<Rightarrow> error + code_units list" where
  "echo_engine q = Inr [q]"

text \<open>An instance of the parameter \<open>fmt\<close>; the examples print integers of small magnitude
  only, so that its value is never used.\<close>

definition no_digits :: "real \<Rightarrow> string" where
  "no_digits r = []"


text \<open>Whether a step ended by pausing.\<close>

definition paused :: "error + ('s, 'o) outcome \<Rightarrow> bool" where
  "paused r = (case r of Inr (Suspended _) \<Rightarrow> True | _ \<Rightarrow> False)"

text \<open>The list \<open>kpis\<close> fetched from the example database, and resume data for
  \<open>selectKPIStep\<close>: a name that no KPI has together with an empty insight name, and the
  selection of the end-to-end example.\<close>

definition sales_kpis :: "kpi_entry list" where
  "sales_kpis = [\<lparr>ke_name = ''total_amount'', ke_formula = ''SELECT amount FROM public.sales''\<rparr>]"

definition ghost_resume :: select_kpi_resume where
  "ghost_resume = \<lparr>sk_kpiName = ''ghost'', sk_insightName = [], sk_insightDescription = []\<rparr>"

definition ghost_named_resume :: select_kpi_resume where
  "ghost_named_resume =
     \<lparr>sk_kpiName = ''ghost'', sk_insightName = ''q1-check'', sk_insightDescription = []\<rparr>"

definition q1_check_resume :: select_kpi_resume where
  "q1_check_resume =
     \<lparr>sk_kpiName = ''total_amount'', sk_insightName = ''q1-check'',
      sk_insightDescription = ''Quarterly check''\<rparr>"

text \<open>A generator that answers every request with the same statement, and one that
  fails.\<close>

definition count_gen :: "gen_context \<Rightarrow> string + string" where
  "count_gen c = Inr ''SELECT count(*) FROM public.sales''"

definition failing_gen :: "gen_context \<Rightarrow> string + string" where
  "failing_gen c = Inl ''model unavailable''"

text \<open>Inputs and resume data of the KPI workflows on the example database.\<close>

definition sales_define_input :: define_input where
  "sales_define_input =
     \<lparr>di_tableName = ''public.sales'',
      di_columns = [\<lparr>column_name = ''id'', data_type = ''integer''\<rparr>,
                    \<lparr>column_name = ''amount'', data_type = ''numeric''\<rparr>]\<rparr>"

definition manual_with_ai_flag :: define_resume where
  "manual_with_ai_flag =
     \<lparr>dr_kpiName = ''total_amount'', dr_kpiDescription = ''Sum of sales'', useAI = True,
      dr_sqlIntent = None, dr_manualSQL = Some ''SELECT amount FROM public.sales''\<rparr>"

definition manual_resume :: define_resume where
  "manual_resume =
     \<lparr>dr_kpiName = ''total_amount'', dr_kpiDescription = ''Sum of sales'', useAI = False,
      dr_sqlIntent = None, dr_manualSQL = Some ''SELECT amount FROM public.sales''\<rparr>"

definition intent_resume :: define_resume where
  "intent_resume =
     \<lparr>dr_kpiName = ''row_count'', dr_kpiDescription = ''Number of sales'', useAI = True,
      dr_sqlIntent = Some ''count all rows'', dr_manualSQL = None\<rparr>"

definition manual_details :: kpi_details where
  "manual_details =
     \<lparr>selectedColumns = [''public.sales.amount''], selectedTables = [''public.sales''],
      kpiName = ''total_amount'', kpiDescription = ''Sum of sales'', useAIGeneration = True,
      sqlIntent = None, manualSQL = Some ''SELECT amount FROM public.sales''\<rparr>"

definition intent_details :: kpi_details where
  "intent_details =
     \<lparr>selectedColumns = [''public.sales.amount''], selectedTables = [''public.sales''],
      kpiName = ''row_count'', kpiDescription = ''Number of sales'', useAIGeneration = True,
      sqlIntent = Some ''count all rows'', manualSQL = None\<rparr>"

definition empty_details :: kpi_details where
  "empty_details =
     \<lparr>selectedColumns = [''public.sales.amount''], selectedTables = [''public.sales''],
      kpiName = ''row_count'', kpiDescription = ''Number of sales'', useAIGeneration = False,
      sqlIntent = Some ''count all rows'', manualSQL = Some []\<rparr>"


text \<open>The input of \<open>selectColumnsAndDetailsStep\<close> after \<open>public.sales\<close> was selected, and
  resume data for it: two column indexes out of range, the same with an empty KPI name,
  and the selection of the end-to-end example.\<close>

definition sales_columns_input :: columns_input where
  "sales_columns_input = listColumnsStep sales_db [''public.sales'']"

definition out_of_range_resume :: columns_resume where
  "out_of_range_resume =
     \<lparr>selectedColumnsByTable = [(''public.sales'', [Finite 5, Finite 7])], cr_kpiName = ''total_amount'',
      cr_kpiDescription = ''Sum of sales'', cr_useAIGeneration = False, cr_sqlIntent = None,
      cr_manualSQL = Some ''SELECT amount FROM public.sales''\<rparr>"

definition unnamed_resume :: columns_resume where
  "unnamed_resume =
     \<lparr>selectedColumnsByTable = [(''public.sales'', [Finite 5, Finite 7])], cr_kpiName = [],
      cr_kpiDescription = ''Sum of sales'', cr_useAIGeneration = False, cr_sqlIntent = None,
      cr_manualSQL = Some ''SELECT amount FROM public.sales''\<rparr>"

definition amount_resume :: columns_resume where
  "amount_resume =
     \<lparr>selectedColumnsByTable = [(''public.sales'', [Finite 1])], cr_kpiName = ''total_amount'',
      cr_kpiDescription = ''Sum of sales'', cr_useAIGeneration = False, cr_sqlIntent = None,
      cr_manualSQL = Some ''SELECT amount FROM public.sales''\<rparr>"


text \<open>Inputs of the three confirmation steps in the end-to-end examples, and resume data
  that match the resume schemas with \<open>confirmed\<close> false and true.\<close>

definition sales_confirm_input :: confirm_input where
  "sales_confirm_input =
     \<lparr>cf_sqlQuery = ''SELECT amount FROM public.sales'', cf_kpiName = ''total_amount'',
      cf_kpiDescription = ''Sum of sales'', previewResults = [[(''amount'', ''10'')]],
      cf_selectedColumns = [''public.sales.amount''], cf_selectedTables = [''public.sales'']\<rparr>"

definition sales_save_input :: save_input where
  "sales_save_input =
     \<lparr>sv_kpiName = ''total_amount'', sv_kpiDescription = ''Sum of sales'',
      sv_sqlQuery = ''SELECT amount FROM public.sales'', preview = [[(''amount'', ''10'')]]\<rparr>"

definition q1_insight_input :: insight_input where
  "q1_insight_input =
     \<lparr>ii_kpiName = ''total_amount'', insightText = ''Sales are flat.'',
      ii_insightName = ''q1-check''\<rparr>"

definition declined :: confirm_resume where
  "declined = \<lparr>confirmed = False, editedSQL = None\<rparr>"

definition accepted :: confirm_resume where
  "accepted = \<lparr>confirmed = True, editedSQL = None\<rparr>"

definition insight_declined :: insight_resume where
  "insight_declined = \<lparr>ir_confirmed = False, editedInsight = None\<rparr>"

definition insight_accepted :: insight_resume where
  "insight_accepted = \<lparr>ir_confirmed = True, editedInsight = None\<rparr>"


section \<open>KPI upserts: one row per name, and the frame of an update\<close>

lemma names_kpi_upsert:
  "map kpi_name (kpi_upsert now n d f t c rows) =
     (if n \<in> set (map kpi_name rows) then map kpi_name rows else map kpi_name rows @ [n])"
  by (auto simp: kpi_upsert_def)

lemma distinct_kpi_upsert:
  "distinct (map kpi_name rows) \<Longrightarrow> distinct (map kpi_name (kpi_upsert now n d f t c rows))"
  by (simp add: names_kpi_upsert)

lemma created_kpi_upsert:
  "n \<in> set (map kpi_name rows) \<Longrightarrow>
   map kpi_created_at (kpi_upsert now n d f t c rows) = map kpi_created_at rows"
  by (auto simp: kpi_upsert_def)

lemma distinct_apply_kpi_op:
  "distinct (map kpi_name (kpi s)) \<Longrightarrow> distinct (map kpi_name (kpi (apply_kpi_op op s)))"
  by (cases op) (simp_all add: insertKPI_def saveKPITool_def distinct_kpi_upsert)

lemma distinct_fold_kpi_op:
  "distinct (map kpi_name (kpi s)) \<Longrightarrow> distinct (map kpi_name (kpi (fold apply_kpi_op ops s)))"
  by (induction ops arbitrary: s) (simp_all add: distinct_apply_kpi_op)

lemma filter_key_single:
  "distinct (map f xs) \<Longrightarrow> r \<in> set xs \<Longrightarrow> filter (\<lambda>x. f x = f r) xs = [r]"
proof (induction xs)
  case Nil then show ?case by simp
next
  case (Cons x xs)
  show ?case
  proof (cases "r = x")
    case True
    from Cons.prems(1) have "f x \<notin> f ` set xs" by simp
    then have "\<forall>y\<in>set xs. f y \<noteq> f x" by (metis imageI)
    then have "filter (\<lambda>y. f y = f x) xs = []" by (simp add: filter_empty_conv)
    with True show ?thesis by simp
  next
    case False
    with Cons.prems have rin: "r \<in> set xs" by simp
    from Cons.prems(1) have "f x \<notin> f ` set xs" by simp
    with rin have "f x \<noteq> f r" by (metis imageI)
    moreover from Cons.prems(1) have "distinct (map f xs)" by simp
    ultimately show ?thesis using Cons.IH rin by simp
  qed
qed

lemma filter_key_le1:
  "distinct (map f xs) \<Longrightarrow> length (filter (\<lambda>x. f x = n) xs) \<le> 1"
proof (cases "n \<in> f ` set xs")
  case True
  assume d: "distinct (map f xs)"
  from True obtain r where r: "r \<in> set xs" "n = f r" by blast
  with filter_key_single[OF d r(1)] show ?thesis by simp
next
  case False
  then have "\<forall>x\<in>set xs. f x \<noteq> n" by (metis imageI)
  then have "filter (\<lambda>x. f x = n) xs = []" by (simp add: filter_empty_conv)
  then show ?thesis by simp
qed

lemma filter_kpi_upsert_existing:
  assumes "distinct (map kpi_name rows)" "r \<in> set rows"
  shows "filter (\<lambda>x. kpi_name x = kpi_name r) (kpi_upsert now (kpi_name r) d f t c rows) =
     [r\<lparr>kpi_description := d, kpi_formula := f, kpi_table_name := t, kpi_columns := c\<rparr>]"
proof -
  let ?g = "\<lambda>x. if kpi_name x = kpi_name r
                 then x\<lparr>kpi_description := d, kpi_formula := f, kpi_table_name := t, kpi_columns := c\<rparr>
                 else x"
  have same: "(\<lambda>x. kpi_name x = kpi_name r) \<circ> ?g = (\<lambda>x. kpi_name x = kpi_name r)"
    by (rule ext) simp
  from assms(2) have "kpi_upsert now (kpi_name r) d f t c rows = map ?g rows"
    by (simp add: kpi_upsert_def)
  then have "filter (\<lambda>x. kpi_name x = kpi_name r) (kpi_upsert now (kpi_name r) d f t c rows)
      = map ?g (filter (\<lambda>x. kpi_name x = kpi_name r) rows)"
    by (simp only: filter_map same)
  also have "\<dots> = map ?g [r]" by (simp only: filter_key_single[OF assms])
  finally show ?thesis by simp
qed

lemma length_kpi_upsert_existing:
  "n \<in> set (map kpi_name rows) \<Longrightarrow> length (kpi_upsert now n d f t c rows) = length rows"
  by (simp add: kpi_upsert_def)

lemma list_all2_kpi_upsert_existing:
  "n \<in> set (map kpi_name rows) \<Longrightarrow>
   list_all2 (\<lambda>r r'. if kpi_name r = n
                 then r' = r\<lparr>kpi_description := d, kpi_formula := f, kpi_table_name := t, kpi_columns := c\<rparr>
                 else r' = r) rows (kpi_upsert now n d f t c rows)"
  by (simp add: kpi_upsert_def list_all2_map2 list_all2_same)


text \<open>
  Claim C3. Whatever sequence of upserts (through \<open>insertKPI\<close> or \<open>saveKPITool\<close>) runs on a
  \<open>kpi\<close> table whose names are pairwise different, the names stay pairwise different, so
  every name has at most one row. An upsert under a name that a row \<open>r\<close> already has leaves
  the number of rows as it is, and the one row of that name is \<open>r\<close> with \<open>description\<close>,
  \<open>formula\<close>, \<open>table_name\<close> and \<open>columns\<close> replaced by the values of the statement (an
  empty or absent description or table name is stored as \<open>NULL\<close>).
\<close>

theorem kpi_upsert_one_row_per_name:
  assumes "distinct (map kpi_name (kpi s))"
  shows "distinct (map kpi_name (kpi (fold apply_kpi_op ops s))) \<and>
         length (filter (\<lambda>x. kpi_name x = n) (kpi (fold apply_kpi_op ops s))) \<le> 1 \<and>
         (\<forall>r \<in> set (kpi s). kpi_name r = k_name data \<longrightarrow>
            length (kpi (insertKPI now data s)) = length (kpi s) \<and>
            filter (\<lambda>x. kpi_name x = k_name data) (kpi (insertKPI now data s)) =
              [r\<lparr>kpi_description := or_null (k_description data),
                  kpi_formula := Some (k_formula data),
                  kpi_table_name := or_null (k_table_name data),
                  kpi_columns := k_columns data\<rparr>]) \<and>
         (\<forall>r \<in> set (kpi s). kpi_name r = kc_name ctx \<longrightarrow>
            length (kpi (snd (saveKPITool now ctx s))) = length (kpi s) \<and>
            filter (\<lambda>x. kpi_name x = kc_name ctx) (kpi (snd (saveKPITool now ctx s))) =
              [r\<lparr>kpi_description := or_null (kc_description ctx),
                  kpi_formula := Some (kc_formula ctx),
                  kpi_table_name := or_null (kc_table ctx),
                  kpi_columns := kc_columns ctx\<rparr>])"
proof (intro conjI ballI impI)
  show "distinct (map kpi_name (kpi (fold apply_kpi_op ops s)))"
    using assms by (rule distinct_fold_kpi_op)
  then show "length (filter (\<lambda>x. kpi_name x = n) (kpi (fold apply_kpi_op ops s))) \<le> 1"
    by (rule filter_key_le1)
next
  fix r assume r: "r \<in> set (kpi s)" "kpi_name r = k_name data"
  then have "k_name data \<in> set (map kpi_name (kpi s))" by force
  then show "length (kpi (insertKPI now data s)) = length (kpi s)"
    by (simp add: insertKPI_def length_kpi_upsert_existing)
  from filter_kpi_upsert_existing[OF assms r(1)] r(2)
  show "filter (\<lambda>x. kpi_name x = k_name data) (kpi (insertKPI now data s)) =
              [r\<lparr>kpi_description := or_null (k_description data),
                  kpi_formula := Some (k_formula data),
                  kpi_table_name := or_null (k_table_name data),
                  kpi_columns := k_columns data\<rparr>]"
    by (simp add: insertKPI_def)
next
  fix r assume r: "r \<in> set (kpi s)" "kpi_name r = kc_name ctx"
  then have "kc_name ctx \<in> set (map kpi_name (kpi s))" by force
  then show "length (kpi (snd (saveKPITool now ctx s))) = length (kpi s)"
    by (simp add: saveKPITool_def length_kpi_upsert_existing)
  from filter_kpi_upsert_existing[OF assms r(1)] r(2)
  show "filter (\<lambda>x. kpi_name x = kc_name ctx) (kpi (snd (saveKPITool now ctx s))) =
              [r\<lparr>kpi_description := or_null (kc_description ctx),
                  kpi_formula := Some (kc_formula ctx),
                  kpi_table_name := or_null (kc_table ctx),
                  kpi_columns := kc_columns ctx\<rparr>]"
    by (simp add: saveKPITool_def)
qed

lemma sales_db_distinct: "distinct (map kpi_name (kpi sales_db))"
  by (simp add: sales_db_def empty_db_def total_amount_row_def)

theorem kpi_upsert_one_row_per_name_witness:
  "distinct (map kpi_name (kpi sales_db)) \<and>
   total_amount_row \<in> set (kpi sales_db) \<and>
   kpi_name total_amount_row = k_name total_amount_data \<and>
   kpi_name total_amount_row = kc_name total_amount_context \<and>
   length (filter (\<lambda>x. kpi_name x = ''total_amount'')
      (kpi (fold apply_kpi_op
              [InsertKPI 5 total_amount_data, SaveKPITool 6 total_amount_context] sales_db))) \<le> 1 \<and>
   kpi (insertKPI 5 total_amount_data sales_db) =
     [\<lparr>kpi_name = ''total_amount'', kpi_description = None,
       kpi_formula = Some ''SELECT sum(amount) FROM public.sales'',
       kpi_table_name = None, kpi_columns = Some [], kpi_created_at = 1\<rparr>] \<and>
   kpi (snd (saveKPITool 6 total_amount_context sales_db)) =
     [\<lparr>kpi_name = ''total_amount'', kpi_description = Some ''Total'',
       kpi_formula = Some ''SELECT sum(amount) FROM public.sales'',
       kpi_table_name = Some ''public.sales'', kpi_columns = None, kpi_created_at = 1\<rparr>]"
  using kpi_upsert_one_row_per_name [OF sales_db_distinct,
      where ops = "[InsertKPI 5 total_amount_data, SaveKPITool 6 total_amount_context]"
        and n = "''total_amount''" and data = total_amount_data and now = 5
        and ctx = total_amount_context]
  by (simp add: sales_db_def empty_db_def total_amount_row_def total_amount_data_def
        total_amount_context_def insertKPI_def saveKPITool_def kpi_upsert_def or_null_def
        truthy_def)

text \<open>
  Claim C10. When the name of an upsert is already in the table, the rows keep their names
  and their \<open>created_at\<close> values, position by position; the row of that name differs from
  the old one in \<open>description\<close>, \<open>formula\<close>, \<open>table_name\<close> and \<open>columns\<close> only, and every
  other row is unchanged.
\<close>

theorem kpi_upsert_frame:
  "(k_name data \<in> set (map kpi_name (kpi s)) \<longrightarrow>
      map kpi_name (kpi (insertKPI now data s)) = map kpi_name (kpi s) \<and>
      map kpi_created_at (kpi (insertKPI now data s)) = map kpi_created_at (kpi s) \<and>
      list_all2 (\<lambda>r r'. if kpi_name r = k_name data
                   then r' = r\<lparr>kpi_description := or_null (k_description data),
                               kpi_formula := Some (k_formula data),
                               kpi_table_name := or_null (k_table_name data),
                               kpi_columns := k_columns data\<rparr>
                   else r' = r) (kpi s) (kpi (insertKPI now data s))) \<and>
   (kc_name ctx \<in> set (map kpi_name (kpi s)) \<longrightarrow>
      map kpi_name (kpi (snd (saveKPITool now ctx s))) = map kpi_name (kpi s) \<and>
      map kpi_created_at (kpi (snd (saveKPITool now ctx s))) = map kpi_created_at (kpi s) \<and>
      list_all2 (\<lambda>r r'. if kpi_name r = kc_name ctx
                   then r' = r\<lparr>kpi_description := or_null (kc_description ctx),
                               kpi_formula := Some (kc_formula ctx),
                               kpi_table_name := or_null (kc_table ctx),
                               kpi_columns := kc_columns ctx\<rparr>
                   else r' = r) (kpi s) (kpi (snd (saveKPITool now ctx s))))"
  by (simp add: insertKPI_def saveKPITool_def names_kpi_upsert created_kpi_upsert
        list_all2_kpi_upsert_existing)

theorem kpi_upsert_frame_witness:
  "k_name total_amount_data \<in> set (map kpi_name (kpi sales_db)) \<and>
   kc_name total_amount_context \<in> set (map kpi_name (kpi sales_db)) \<and>
   map kpi_created_at (kpi sales_db) = [1] \<and>
   map kpi_created_at (kpi (insertKPI 5 total_amount_data sales_db)) = [1] \<and>
   map kpi_created_at (kpi (snd (saveKPITool 6 total_amount_context sales_db))) = [1] \<and>
   map kpi_name (kpi (insertKPI 5 total_amount_data sales_db)) = [''total_amount''] \<and>
   map kpi_name (kpi (snd (saveKPITool 6 total_amount_context sales_db))) = [''total_amount'']"
  using kpi_upsert_frame [where data = total_amount_data and s = sales_db and now = 5
      and ctx = total_amount_context]
  by (simp add: sales_db_def empty_db_def total_amount_row_def total_amount_data_def
        total_amount_context_def insertKPI_def saveKPITool_def kpi_upsert_def)


section \<open>Bounded query execution: the text that reaches the engine\<close>

lemma replace_semicolon_end_spec:
  "replace_semicolon_end t = spec_strip_terminator t"
proof (induction t)
  case Nil show ?case by (simp add: spec_strip_terminator_def)
next
  case (Cons c cs)
  then show ?case by (cases cs) (auto simp: spec_strip_terminator_def)
qed

lemma rev_dropWhile_takeWhile:
  "xs = rev (dropWhile P (rev xs)) @ rev (takeWhile P (rev xs))"
proof -
  have "rev (takeWhile P (rev xs) @ dropWhile P (rev xs)) = xs"
    by (simp only: takeWhile_dropWhile_id rev_rev_ident)
  then show ?thesis by (simp only: rev_append)
qed

lemma trim_decompose:
  "s = takeWhile is_space s @ trim s @ rev (takeWhile is_space (rev (dropWhile is_space s)))"
proof -
  have "dropWhile is_space s =
          trim s @ rev (takeWhile is_space (rev (dropWhile is_space s)))"
    unfolding trim_def by (rule rev_dropWhile_takeWhile)
  moreover have "s = takeWhile is_space s @ dropWhile is_space s" by simp
  ultimately show ?thesis by simp
qed

lemma trim_surrounding:
  "\<exists>pre post. s = pre @ trim s @ post \<and> (\<forall>c\<in>set pre. is_space c) \<and> (\<forall>c\<in>set post. is_space c)"
proof (intro exI conjI)
  show "s = takeWhile is_space s @ trim s @ rev (takeWhile is_space (rev (dropWhile is_space s)))"
    by (rule trim_decompose)
  show "\<forall>c\<in>set (takeWhile is_space s). is_space c"
    by (auto dest: set_takeWhileD)
  show "\<forall>c\<in>set (rev (takeWhile is_space (rev (dropWhile is_space s)))). is_space c"
    by (auto dest: set_takeWhileD)
qed

lemma trim_last: "trim s \<noteq> [] \<Longrightarrow> \<not> is_space (last (trim s))"
  by (simp add: trim_def last_rev hd_dropWhile)

lemma trim_hd:
  assumes "trim s \<noteq> []" shows "\<not> is_space (hd (trim s))"
proof -
  let ?t = "dropWhile is_space s"
  have t: "?t = trim s @ rev (takeWhile is_space (rev ?t))"
    unfolding trim_def by (rule rev_dropWhile_takeWhile)
  from t assms have ne: "?t \<noteq> []" by (metis append_is_Nil_conv)
  from t assms have "hd ?t = hd (trim s)" by (metis hd_append2)
  with hd_dropWhile[OF ne] show ?thesis by simp
qed

lemma Number_toString_small:
  "Number_toString fmt (Finite 0) = ''0''" "Number_toString fmt (Finite 1) = ''1''"
  "Number_toString fmt (Finite 3) = ''3''" "Number_toString fmt (Finite 5) = ''5''"
  "Number_toString fmt (Finite 7) = ''7''" "Number_toString fmt (Finite 10) = ''10''"
  "Number_toString fmt (Finite (- 2)) = ''-2''"
  "Number_toString fmt PosInfinity = ''Infinity''"
  by (simp_all add: Number_toString_def decimal_def decimal_nat.simps digits_def)

text \<open>
  Claim C4. For every text \<open>s\<close> and every limit (5 when none is given), \<open>runQuery\<close> and
  \<open>runQueryTool\<close> hand the engine the trimmed text, without one final semicolon when it
  has one, followed by \<open>LIMIT\<close>, the limit as JavaScript prints it (\<open>5\<close> for the default)
  and a semicolon; no property of \<open>s\<close> is tested. The trimmed text is \<open>s\<close> without a prefix
  and a suffix of white space, and it neither starts nor ends with white space.
\<close>

theorem runQuery_submits_limited_text:
  "runQuery fmt query s n =
     query (spec_strip_terminator (trim s) @ units '' LIMIT ''
              @ units (Number_toString fmt (case n of None \<Rightarrow> Finite 5 | Some k \<Rightarrow> k))
              @ units '';'') \<and>
   runQueryTool fmt query s n =
     query (spec_strip_terminator (trim s) @ units '' LIMIT ''
              @ units (Number_toString fmt (case n of None \<Rightarrow> Finite 5 | Some k \<Rightarrow> k))
              @ units '';'') \<and>
   Number_toString fmt (Finite 5) = ''5'' \<and>
   (\<exists>pre post. s = pre @ trim s @ post \<and> (\<forall>c\<in>set pre. is_space c)
       \<and> (\<forall>c\<in>set post. is_space c)) \<and>
   (trim s \<noteq> [] \<longrightarrow> \<not> is_space (hd (trim s)) \<and> \<not> is_space (last (trim s)))"
  using trim_surrounding [of s] trim_hd [of s] trim_last [of s]
  by (simp add: runQuery_def runQueryTool_def limitedSql_def replace_semicolon_end_spec
        Number_toString_small)

theorem runQuery_submits_limited_text_witness:
  "trim (units ''SELECT 1;'' @ [0xA0, 0x2028]) \<noteq> [] \<and>
   \<not> is_space (hd (trim (units ''SELECT 1;'' @ [0xA0, 0x2028]))) \<and>
   \<not> is_space (last (trim (units ''SELECT 1;'' @ [0xA0, 0x2028]))) \<and>
   runQuery no_digits echo_engine (units ''SELECT 1;'' @ [0xA0, 0x2028]) None =
     Inr [units ''SELECT 1 LIMIT 5;''] \<and>
   runQueryTool no_digits echo_engine (units ''  SELECT amount FROM public.sales;; '')
       (Some (Finite 10)) =
     Inr [units ''SELECT amount FROM public.sales; LIMIT 10;'']"
  using runQuery_submits_limited_text
    [where fmt = no_digits and query = echo_engine
       and s = "units ''SELECT 1;'' @ [0xA0, 0x2028]" and n = None]
    runQuery_submits_limited_text
    [where fmt = no_digits and query = echo_engine
       and s = "units ''  SELECT amount FROM public.sales;; ''" and n = "Some (Finite 10)"]
  by (simp add: trim_def is_space_def Number_toString_small spec_strip_terminator_def
        echo_engine_def units_def)

section \<open>Schema introspection: the table looked up and the columns returned\<close>

lemma split_dot_nonempty: "split_dot s \<noteq> []"
  by (induction s) (auto split: list.splits)


lemma split_dot_append:
  "CHR ''.'' \<notin> set a \<Longrightarrow> split_dot (a @ CHR ''.'' # r) = a # split_dot r"
  by (induction a) auto

lemma split_dot_length: "CHR ''.'' \<in> set s \<Longrightarrow> 2 \<le> length (split_dot s)"
proof -
  assume "CHR ''.'' \<in> set s"
  then obtain a r where s: "s = a @ CHR ''.'' # r" and a: "CHR ''.'' \<notin> set a"
    by (auto dest: split_list_first)
  have "length (split_dot r) \<ge> 1"
    using split_dot_nonempty [of r] by (cases "split_dot r") auto
  with s a show ?thesis by (simp add: split_dot_append)
qed








lemma listColumns_sales:
  "listColumns sales_db ''public.sales'' =
     [\<lparr>column_name = ''id'', data_type = ''integer''\<rparr>,
      \<lparr>column_name = ''amount'', data_type = ''numeric''\<rparr>]"
  by (simp add: listColumns_def schema_and_table_def includes_dot_def select_columns_def
        sales_db_def empty_db_def sales_catalog_def)


section \<open>Insight insertion: what is stored for falsy fields\<close>






section \<open>Startup: the two callers of \<open>ensureTables\<close>\<close>

text \<open>
  Claim C8. When \<open>ensureTables\<close> fails with an error \<open>e\<close>, \<open>initDatabase\<close> writes the failure
  with \<open>e\<close> to the error console and ends the process with exit code 1; when it succeeds
  the process ends with exit code 0. The composition root writes the failure with \<open>e\<close> to
  the error console, and the process keeps running.
\<close>

theorem startup_failure_policies:
  "initDatabase (Inl e) =
     ([Log ''Initializing database tables...'',
       ErrorLog ([CHR 0xE2, CHR 0x9C, CHR 0x97] @ '' Failed to initialize database:'') e],
      Exited 1) \<and>
   snd (initDatabase (Inr ())) = Exited 0 \<and>
   mastra_startup (Inl e) =
     ([ErrorLog ''Failed to initialize database tables:'' e], Running) \<and>
   mastra_startup (Inr ()) = ([], Running)"
  by (simp add: initDatabase_def mastra_startup_def)

theorem startup_failure_policies_witness:
  "snd (initDatabase (Inl (External ''connection refused''))) = Exited 1 \<and>
   snd (initDatabase (Inr ())) = Exited 0 \<and>
   snd (mastra_startup (Inl (External ''connection refused''))) = Running"
  using startup_failure_policies [where e = "External ''connection refused''"]
  by simp


section \<open>The insight workflow: selecting a KPI by name\<close>

lemma find_first_match:
  "P k \<Longrightarrow> \<forall>x\<in>set pre. \<not> P x \<Longrightarrow> find P (pre @ k # post) = Some k"
  by (induction pre) simp_all

lemma find_no_match: "\<forall>x\<in>set xs. \<not> P x \<Longrightarrow> find P xs = None"
  by (induction xs) simp_all

text \<open>
  Claim C7, as the code has it. The claim as stated fails when the insight name (or the
  KPI name) of the resume data is empty: the step pauses again, whatever the KPI name is.
\<close>

theorem selectKPIStep_unknown_name_counterexample:
  "sk_kpiName ghost_resume \<notin> set (map ke_name sales_kpis) \<and>
   selectKPIStep sales_kpis (Some ghost_resume) =
     Inr (Suspended \<lparr>availableKPIs = [''total_amount''],
                      sk_message = ''Select a KPI and provide insight name and description''\<rparr>)"
  by (simp add: ghost_resume_def sales_kpis_def selectKPIStep_def select_kpi_suspended_def
        select_kpi_message_def)

text \<open>
  Claim C7, amended. When the KPI name and the insight name of the resume data are both
  non-empty: if no KPI of the fetched list has the name, the step throws the error
  \<open>KPI '<name>' not found\<close>; if one has, the step returns the name, the formula of the first
  KPI of the list with that name, and the insight name and description of the resume
  data. When one of the two names is empty, the step pauses with the payload it gives
  without resume data.
\<close>

theorem selectKPIStep_unknown_name:
  "(sk_kpiName r \<noteq> [] \<and> sk_insightName r \<noteq> [] \<longrightarrow>
      ((\<forall>k\<in>set kpis. ke_name k \<noteq> sk_kpiName r) \<longrightarrow>
         selectKPIStep kpis (Some r) =
           Inl (Error (''KPI '' @ [CHR 0x27] @ sk_kpiName r @ [CHR 0x27] @ '' not found''))) \<and>
      (kpis = pre @ k # post \<and> ke_name k = sk_kpiName r \<and>
         (\<forall>x\<in>set pre. ke_name x \<noteq> sk_kpiName r) \<longrightarrow>
         selectKPIStep kpis (Some r) =
           Inr (Completed \<lparr>ko_kpiName = sk_kpiName r, kpiFormula = ke_formula k,
                           ko_insightName = sk_insightName r,
                           ko_insightDescription = sk_insightDescription r\<rparr>))) \<and>
   (sk_kpiName r = [] \<or> sk_insightName r = [] \<longrightarrow>
      selectKPIStep kpis (Some r) = selectKPIStep kpis None) \<and>
   selectKPIStep kpis None =
     Inr (Suspended \<lparr>availableKPIs = map ke_name kpis, sk_message = select_kpi_message\<rparr>)"
proof (intro conjI impI)
  assume gate: "sk_kpiName r \<noteq> [] \<and> sk_insightName r \<noteq> []"
    and none: "\<forall>k\<in>set kpis. ke_name k \<noteq> sk_kpiName r"
  from none have "find (\<lambda>k. ke_name k = sk_kpiName r) kpis = None"
    by (rule find_no_match)
  with gate show "selectKPIStep kpis (Some r) =
      Inl (Error (''KPI '' @ [CHR 0x27] @ sk_kpiName r @ [CHR 0x27] @ '' not found''))"
    by (simp add: selectKPIStep_def kpi_not_found_message_def quote_def)
next
  assume gate: "sk_kpiName r \<noteq> [] \<and> sk_insightName r \<noteq> []"
    and first: "kpis = pre @ k # post \<and> ke_name k = sk_kpiName r \<and>
         (\<forall>x\<in>set pre. ke_name x \<noteq> sk_kpiName r)"
  from first have "find (\<lambda>k. ke_name k = sk_kpiName r) kpis = Some k"
    by (simp add: find_first_match)
  with gate show "selectKPIStep kpis (Some r) =
           Inr (Completed \<lparr>ko_kpiName = sk_kpiName r, kpiFormula = ke_formula k,
                           ko_insightName = sk_insightName r,
                           ko_insightDescription = sk_insightDescription r\<rparr>)"
    by (simp add: selectKPIStep_def)
next
  assume "sk_kpiName r = [] \<or> sk_insightName r = []"
  then show "selectKPIStep kpis (Some r) = selectKPIStep kpis None"
    by (auto simp: selectKPIStep_def)
next
  show "selectKPIStep kpis None =
     Inr (Suspended \<lparr>availableKPIs = map ke_name kpis, sk_message = select_kpi_message\<rparr>)"
    by (simp add: selectKPIStep_def select_kpi_suspended_def)
qed

theorem selectKPIStep_unknown_name_witness:
  "sk_kpiName ghost_named_resume \<noteq> [] \<and> sk_insightName ghost_named_resume \<noteq> [] \<and>
   sk_kpiName ghost_named_resume \<notin> set (map ke_name sales_kpis) \<and>
   selectKPIStep sales_kpis (Some ghost_named_resume) = Inl (Error ''KPI 'ghost' not found'') \<and>
   sales_kpis = [] @ hd sales_kpis # [] \<and>
   ke_name (hd sales_kpis) = sk_kpiName q1_check_resume \<and>
   selectKPIStep sales_kpis (Some q1_check_resume) =
     Inr (Completed \<lparr>ko_kpiName = ''total_amount'',
                     kpiFormula = ''SELECT amount FROM public.sales'',
                     ko_insightName = ''q1-check'',
                     ko_insightDescription = ''Quarterly check''\<rparr>) \<and>
   sk_insightName ghost_resume = [] \<and>
   selectKPIStep sales_kpis (Some ghost_resume) = selectKPIStep sales_kpis None"
  using selectKPIStep_unknown_name [where r = ghost_named_resume and kpis = sales_kpis
      and pre = "[]" and k = "hd sales_kpis" and post = "[]"]
    selectKPIStep_unknown_name [where r = q1_check_resume and kpis = sales_kpis
      and pre = "[]" and k = "hd sales_kpis" and post = "[]"]
    selectKPIStep_unknown_name [where r = ghost_resume and kpis = sales_kpis
      and pre = "[]" and k = "hd sales_kpis" and post = "[]"]
  by (simp add: ghost_named_resume_def q1_check_resume_def ghost_resume_def sales_kpis_def)


section \<open>The KPI workflows: resolving the SQL text\<close>

text \<open>
  Claim C6, as the code has it. The claim as stated fails in the name-based workflow:
  \<open>defineKPIStep\<close> uses the manual SQL only when \<open>useAI\<close> is false, so resume data with
  \<open>useAI = true\<close>, no intent and a manual SQL text ends in the error.
\<close>

theorem defineKPIStep_manual_sql_counterexample:
  "dr_manualSQL manual_with_ai_flag = Some ''SELECT amount FROM public.sales'' \<and>
   defineKPIStep count_gen sales_define_input (Some manual_with_ai_flag) =
     Inl (Error ''Provide either sqlIntent (with useAI=true) or manualSQL (with useAI=false)'')"
  by (simp add: manual_with_ai_flag_def defineKPIStep_def truthy_def define_error_message_def)

text \<open>
  Claim C6, amended. In the index-based workflow \<open>generateSQLStep\<close> throws its error
  exactly when the input has neither \<open>useAIGeneration\<close> with a non-empty intent nor a
  non-empty manual SQL text; with \<open>useAIGeneration\<close> and a non-empty intent its result is
  the generator's (the generated text as \<open>sqlQuery\<close>, or the generator's failure), and
  otherwise a non-empty manual SQL text is the \<open>sqlQuery\<close>. In the name-based workflow
  \<open>defineKPIStep\<close>, given resume data with a non-empty KPI name, throws its error exactly
  when the resume data has neither \<open>useAI\<close> with a non-empty intent nor \<open>useAI = false\<close>
  with a non-empty manual SQL text; the manual text is the \<open>sqlQuery\<close> only when \<open>useAI\<close> is
  false.
\<close>

theorem sql_resolution_errors:
  "(generateSQLStep gen d = Inl (Error missing_sql_message) \<longleftrightarrow>
      \<not> (useAIGeneration d \<and> truthy (sqlIntent d)) \<and> \<not> truthy (manualSQL d)) \<and>
   (useAIGeneration d \<and> truthy (sqlIntent d) \<longrightarrow>
      generateSQLStep gen d =
        (case gen \<lparr>intent = the (sqlIntent d), g_tables = selectedTables d,
                    g_columns = selectedColumns d, g_limit = 10\<rparr> of
           Inl m \<Rightarrow> Inl (External m)
         | Inr sql \<Rightarrow> Inr \<lparr>sqlQuery = sql, so_kpiName = kpiName d,
                            so_kpiDescription = kpiDescription d,
                            so_selectedColumns = selectedColumns d,
                            so_selectedTables = selectedTables d\<rparr>)) \<and>
   (\<not> (useAIGeneration d \<and> truthy (sqlIntent d)) \<and> truthy (manualSQL d) \<longrightarrow>
      generateSQLStep gen d =
        Inr \<lparr>sqlQuery = the (manualSQL d), so_kpiName = kpiName d,
             so_kpiDescription = kpiDescription d,
             so_selectedColumns = selectedColumns d,
             so_selectedTables = selectedTables d\<rparr>) \<and>
   (dr_kpiName r \<noteq> [] \<longrightarrow>
      (defineKPIStep gen inp (Some r) = Inl (Error define_error_message) \<longleftrightarrow>
         \<not> (useAI r \<and> truthy (dr_sqlIntent r)) \<and> \<not> (\<not> useAI r \<and> truthy (dr_manualSQL r))) \<and>
      (useAI r \<and> truthy (dr_sqlIntent r) \<longrightarrow>
         defineKPIStep gen inp (Some r) =
           (case gen \<lparr>intent = the (dr_sqlIntent r), g_tables = [di_tableName inp],
                       g_columns = map (\<lambda>c. di_tableName inp @ ''.'' @ column_name c)
                                     (di_columns inp),
                       g_limit = 100\<rparr> of
              Inl m \<Rightarrow> Inl (External m)
            | Inr sql \<Rightarrow> Inr (Completed \<lparr>do_kpiName = dr_kpiName r,
                                          do_kpiDescription = dr_kpiDescription r,
                                          do_sqlQuery = sql\<rparr>))) \<and>
      (\<not> useAI r \<and> truthy (dr_manualSQL r) \<longrightarrow>
         defineKPIStep gen inp (Some r) =
           Inr (Completed \<lparr>do_kpiName = dr_kpiName r,
                           do_kpiDescription = dr_kpiDescription r,
                           do_sqlQuery = the (dr_manualSQL r)\<rparr>)))"
proof (intro conjI impI)
  show "generateSQLStep gen d = Inl (Error missing_sql_message) \<longleftrightarrow>
      \<not> (useAIGeneration d \<and> truthy (sqlIntent d)) \<and> \<not> truthy (manualSQL d)"
    by (simp add: generateSQLStep_def split: sum.splits)
next
  assume "dr_kpiName r \<noteq> []"
  then show "defineKPIStep gen inp (Some r) = Inl (Error define_error_message) \<longleftrightarrow>
         \<not> (useAI r \<and> truthy (dr_sqlIntent r)) \<and> \<not> (\<not> useAI r \<and> truthy (dr_manualSQL r))"
    by (simp add: defineKPIStep_def split: sum.splits)
qed (auto simp: generateSQLStep_def defineKPIStep_def)

theorem sql_resolution_errors_witness:
  "generateSQLStep count_gen empty_details =
     Inl (Error ''Either AI generation with intent or manual SQL must be provided'') \<and>
   useAIGeneration intent_details \<and> truthy (sqlIntent intent_details) \<and>
   generateSQLStep count_gen intent_details =
     Inr \<lparr>sqlQuery = ''SELECT count(*) FROM public.sales'', so_kpiName = ''row_count'',
          so_kpiDescription = ''Number of sales'',
          so_selectedColumns = [''public.sales.amount''],
          so_selectedTables = [''public.sales'']\<rparr> \<and>
   generateSQLStep failing_gen intent_details = Inl (External ''model unavailable'') \<and>
   \<not> (useAIGeneration manual_details \<and> truthy (sqlIntent manual_details)) \<and>
   truthy (manualSQL manual_details) \<and>
   sqlQuery (projr (generateSQLStep count_gen manual_details)) =
     ''SELECT amount FROM public.sales'' \<and>
   dr_kpiName manual_resume \<noteq> [] \<and> \<not> useAI manual_resume \<and>
   truthy (dr_manualSQL manual_resume) \<and>
   defineKPIStep count_gen sales_define_input (Some manual_resume) =
     Inr (Completed \<lparr>do_kpiName = ''total_amount'', do_kpiDescription = ''Sum of sales'',
                     do_sqlQuery = ''SELECT amount FROM public.sales''\<rparr>) \<and>
   dr_kpiName intent_resume \<noteq> [] \<and> useAI intent_resume \<and>
   truthy (dr_sqlIntent intent_resume) \<and>
   defineKPIStep count_gen sales_define_input (Some intent_resume) =
     Inr (Completed \<lparr>do_kpiName = ''row_count'', do_kpiDescription = ''Number of sales'',
                     do_sqlQuery = ''SELECT count(*) FROM public.sales''\<rparr>)"
  using sql_resolution_errors [where gen = count_gen and d = empty_details
      and r = manual_resume and inp = sales_define_input]
    sql_resolution_errors [where gen = count_gen and d = intent_details
      and r = intent_resume and inp = sales_define_input]
    sql_resolution_errors [where gen = failing_gen and d = intent_details
      and r = intent_resume and inp = sales_define_input]
    sql_resolution_errors [where gen = count_gen and d = manual_details
      and r = intent_resume and inp = sales_define_input]
  by (simp add: empty_details_def intent_details_def manual_details_def manual_resume_def
        intent_resume_def sales_define_input_def count_gen_def failing_gen_def truthy_def
        missing_sql_message_def)


section \<open>The index-based workflow: indexes out of range\<close>

lemma join_contains: "x \<in> set xs \<Longrightarrow> \<exists>ps ss. join sep xs = ps @ x @ ss"
proof (induction sep xs rule: join.induct)
  case (1 sep) then show ?case by simp
next
  case (2 sep y)
  then have "join sep [y] = [] @ x @ []" by simp
  then show ?case by blast
next
  case (3 sep y z zs)
  show ?case
  proof (cases "x = y")
    case True
    then have "join sep (y # z # zs) = [] @ x @ (sep @ join sep (z # zs))" by simp
    then show ?thesis by blast
  next
    case False
    with "3.prems" have "x \<in> set (z # zs)" by simp
    from "3.IH" [OF this] obtain ps ss where "join sep (z # zs) = ps @ x @ ss" by blast
    then have "join sep (y # z # zs) = (y @ sep @ ps) @ x @ ss" by simp
    then show ?thesis by blast
  qed
qed

lemma sublist_join: "x \<in> set xs \<Longrightarrow> sublist x (pre @ join sep xs @ post)"
proof -
  assume "x \<in> set xs"
  from join_contains [OF this, of sep]
  obtain ps ss where "join sep xs = ps @ x @ ss" by blast
  then have "pre @ join sep xs @ post = (pre @ ps) @ x @ (ss @ post)" by simp
  then show ?thesis unfolding sublist_def by blast
qed

lemma selectTablesStep_invalid:
  assumes "idxs \<noteq> []" "i \<in> set idxs" "lt_zero i \<or> ge_length i (length tables)"
  shows "selectTablesStep fmt tables (Some idxs) =
           Inl (Error (''Invalid table indexes: ''
             @ join '', '' (map (Number_toString fmt)
                 (filter (\<lambda>i. lt_zero i \<or> ge_length i (length tables)) idxs))
             @ ''. Must be between 0 and ''
             @ Number_toString fmt (Finite (real (length tables) - 1))))"
proof -
  from assms(2,3) have "i \<in> set (invalidIndexes tables idxs)"
    by (simp add: invalidIndexes_def)
  then have "invalidIndexes tables idxs \<noteq> []" by auto
  with assms(1) show ?thesis
    by (simp add: selectTablesStep_def invalid_table_indexes_message_def invalidIndexes_def)
qed

text \<open>An index at which the read of an array succeeds is an integer in range.\<close>

lemma element_in_range:
  "element xs j = Some x \<Longrightarrow> \<not> lt_zero j \<and> \<not> ge_length j (length xs)"
proof (cases j)
  case (Finite r)
  assume "element xs j = Some x"
  with Finite have r: "0 \<le> r" "r = of_int \<lfloor>r\<rfloor>" "nat \<lfloor>r\<rfloor> < length xs"
    by (auto simp: element_def split: if_splits)
  from r(3) have "\<lfloor>r\<rfloor> < int (length xs)" by linarith
  then have "of_int \<lfloor>r\<rfloor> < (of_int (int (length xs)) :: real)" by (simp only: of_int_less_iff)
  with r(2) have "r < real (length xs)" by simp
  with r(1) Finite show ?thesis by (simp add: lt_zero_def ge_length_def)
qed (simp_all add: element_def)

lemma convert_indexes_first_invalid:
  "\<forall>j\<in>set is1. element cols j \<noteq> None \<Longrightarrow> lt_zero i \<or> ge_length i (length cols) \<Longrightarrow>
   convert_indexes fmt t (Columns cols) (is1 @ i # is2) acc =
     Inl (Error (invalid_column_index_message fmt i t (Columns cols)))"
proof (induction is1 arbitrary: acc)
  case Nil
  then show ?case by (simp add: ge_member_length_def)
next
  case (Cons j js)
  from Cons.prems(1) obtain c where c: "element cols j = Some c" by auto
  from element_in_range [OF c] c Cons show ?case
    by (simp add: ge_member_length_def member_element_def)
qed

lemma convert_indexes_valid:
  "\<forall>j\<in>set is. element cols j \<noteq> None \<Longrightarrow>
   convert_indexes fmt t (Columns cols) is acc =
     Inr (acc @ map (\<lambda>j. t @ ''.'' @ column_name (the (element cols j))) is)"
proof (induction "is" arbitrary: acc)
  case Nil
  show ?case by simp
next
  case (Cons j js)
  from Cons.prems obtain c where c: "element cols j = Some c" by auto
  from element_in_range [OF c] c Cons show ?case
    by (simp add: ge_member_length_def member_element_def)
qed

lemma convert_entries_first_invalid:
  assumes "\<forall>(t', is')\<in>set pre. \<exists>cols'. columns t' = Some cols' \<and>
             (\<forall>j\<in>set is'. element cols' j \<noteq> None)"
    and "columns t = Some cols"
    and "\<forall>j\<in>set is1. element cols j \<noteq> None"
    and "lt_zero i \<or> ge_length i (length cols)"
  shows "convert_entries fmt columns (pre @ (t, is1 @ i # is2) # post) acc =
           Inl (Error (invalid_column_index_message fmt i t (Columns cols)))"
  using assms(1)
proof (induction pre arbitrary: acc)
  case Nil
  from assms(2) convert_indexes_first_invalid [OF assms(3,4)]
  show ?case by (simp add: read_member_def)
next
  case (Cons e pre)
  obtain t' is' where e: "e = (t', is')" by (cases e)
  with Cons.prems obtain cols' where c: "columns t' = Some cols'"
    and v: "\<forall>j\<in>set is'. element cols' j \<noteq> None" by auto
  from Cons.prems have rest: "\<forall>(t', is')\<in>set pre. \<exists>cols'. columns t' = Some cols' \<and>
             (\<forall>j\<in>set is'. element cols' j \<noteq> None)" by simp
  from e c convert_indexes_valid [OF v] Cons.IH [OF rest] show ?case
    by (simp add: read_member_def)
qed

lemma sales_columns_input_eval:
  "ci_columns sales_columns_input =
     [''public.sales'' \<mapsto> [\<lparr>column_name = ''id'', data_type = ''integer''\<rparr>,
                           \<lparr>column_name = ''amount'', data_type = ''numeric''\<rparr>]]"
  "ci_selectedTables sales_columns_input = [''public.sales'']"
  using listColumns_sales
  by (simp_all add: sales_columns_input_def listColumnsStep_def listColumnsTool_def
        listColumns_def)

text \<open>
  Claim C1, as the code has it. The claim as stated fails for the column-selection step:
  the loop throws at the first index out of range, so with the indexes 5 and 7 for a table
  of two columns the message names 5 and not 7. The step also pauses, and throws nothing,
  when the KPI name of the resume data is empty.
\<close>

theorem column_indexes_counterexample:
  "selectedColumnsByTable out_of_range_resume = [(''public.sales'', [Finite 5, Finite 7])] \<and>
   map_option length (ci_columns sales_columns_input ''public.sales'') = Some 2 \<and>
   selectColumnsAndDetailsStep no_digits sales_columns_input (Some out_of_range_resume) =
     Inl (Error ''Invalid column index 5 for table 'public.sales'. Must be between 0 and 1'') \<and>
   CHR ''7'' \<notin> set ''Invalid column index 5 for table 'public.sales'. Must be between 0 and 1'' \<and>
   selectedColumnsByTable unnamed_resume = [(''public.sales'', [Finite 5, Finite 7])] \<and>
   paused (selectColumnsAndDetailsStep no_digits sales_columns_input (Some unnamed_resume))"
  by (simp add: out_of_range_resume_def unnamed_resume_def sales_columns_input_eval
        selectColumnsAndDetailsStep_def invalid_column_index_message_def quote_def
        read_member_def lt_zero_def ge_length_def ge_member_length_def
        member_length_minus_one_def Number_toString_small suspend_columns_def paused_def)

text \<open>
  Claim C1, amended. In the table-selection step, a non-empty list of selected indexes
  with a value outside \<open>[0, N)\<close> ends in the error whose message lists, as JavaScript prints
  them and separated by commas, all the selected indexes outside \<open>[0, N)\<close>: every one of
  them occurs in the message. In the column-selection step the error names the first
  index out of range and its table: this is so when the KPI name of the resume data is
  non-empty, the table of that index and the tables of the entries before it are keys of
  the input's \<open>columns\<close>, and the indexes before it (in its own list and in the entries
  before) are integers in range.
\<close>

theorem invalid_indexes_named:
  "(idxs \<noteq> [] \<and> (\<exists>i\<in>set idxs. lt_zero i \<or> ge_length i (length tables)) \<longrightarrow>
      selectTablesStep fmt tables (Some idxs) =
        Inl (Error (''Invalid table indexes: ''
          @ join '', '' (map (Number_toString fmt)
              (filter (\<lambda>i. lt_zero i \<or> ge_length i (length tables)) idxs))
          @ ''. Must be between 0 and ''
          @ Number_toString fmt (Finite (real (length tables) - 1)))) \<and>
      (\<forall>i\<in>set idxs. lt_zero i \<or> ge_length i (length tables) \<longrightarrow>
         sublist (Number_toString fmt i)
           (''Invalid table indexes: ''
              @ join '', '' (map (Number_toString fmt)
                  (filter (\<lambda>i. lt_zero i \<or> ge_length i (length tables)) idxs))
              @ ''. Must be between 0 and ''
              @ Number_toString fmt (Finite (real (length tables) - 1))))) \<and>
   (cr_kpiName r \<noteq> [] \<and>
    selectedColumnsByTable r = pre @ (t, is1 @ i # is2) # post \<and>
    (\<forall>(t', is')\<in>set pre. \<exists>cols'. ci_columns inp t' = Some cols' \<and>
        (\<forall>j\<in>set is'. element cols' j \<noteq> None)) \<and>
    ci_columns inp t = Some cols \<and>
    (\<forall>j\<in>set is1. element cols j \<noteq> None) \<and>
    (lt_zero i \<or> ge_length i (length cols)) \<longrightarrow>
      selectColumnsAndDetailsStep fmt inp (Some r) =
        Inl (Error (''Invalid column index '' @ Number_toString fmt i @ '' for table ''
          @ [CHR 0x27] @ t @ [CHR 0x27] @ ''. Must be between 0 and ''
          @ Number_toString fmt (Finite (real (length cols) - 1)))))"
proof (intro conjI impI ballI)
  assume a: "idxs \<noteq> [] \<and> (\<exists>i\<in>set idxs. lt_zero i \<or> ge_length i (length tables))"
  then have ne: "idxs \<noteq> []" by simp
  from a obtain k where k: "k \<in> set idxs" "lt_zero k \<or> ge_length k (length tables)"
    by blast
  show "selectTablesStep fmt tables (Some idxs) =
        Inl (Error (''Invalid table indexes: ''
          @ join '', '' (map (Number_toString fmt)
              (filter (\<lambda>i. lt_zero i \<or> ge_length i (length tables)) idxs))
          @ ''. Must be between 0 and ''
          @ Number_toString fmt (Finite (real (length tables) - 1))))"
    by (rule selectTablesStep_invalid [OF ne k])
next
  fix k assume "k \<in> set idxs" "lt_zero k \<or> ge_length k (length tables)"
  then have "Number_toString fmt k \<in>
      set (map (Number_toString fmt)
             (filter (\<lambda>i. lt_zero i \<or> ge_length i (length tables)) idxs))"
    by simp
  then show "sublist (Number_toString fmt k)
           (''Invalid table indexes: ''
              @ join '', '' (map (Number_toString fmt)
                  (filter (\<lambda>i. lt_zero i \<or> ge_length i (length tables)) idxs))
              @ ''. Must be between 0 and ''
              @ Number_toString fmt (Finite (real (length tables) - 1)))"
    by (rule sublist_join)
next
  assume a: "cr_kpiName r \<noteq> [] \<and>
    selectedColumnsByTable r = pre @ (t, is1 @ i # is2) # post \<and>
    (\<forall>(t', is')\<in>set pre. \<exists>cols'. ci_columns inp t' = Some cols' \<and>
        (\<forall>j\<in>set is'. element cols' j \<noteq> None)) \<and>
    ci_columns inp t = Some cols \<and>
    (\<forall>j\<in>set is1. element cols j \<noteq> None) \<and>
    (lt_zero i \<or> ge_length i (length cols))"
  then have "convert_entries fmt (ci_columns inp) (pre @ (t, is1 @ i # is2) # post) [] =
           Inl (Error (invalid_column_index_message fmt i t (Columns cols)))"
    by (intro convert_entries_first_invalid) blast+
  with a show "selectColumnsAndDetailsStep fmt inp (Some r) =
        Inl (Error (''Invalid column index '' @ Number_toString fmt i @ '' for table ''
          @ [CHR 0x27] @ t @ [CHR 0x27] @ ''. Must be between 0 and ''
          @ Number_toString fmt (Finite (real (length cols) - 1))))"
    by (simp add: selectColumnsAndDetailsStep_def invalid_column_index_message_def quote_def
          member_length_minus_one_def)
qed

theorem invalid_indexes_named_witness:
  "[Finite 0, Finite 3, Finite (- 2), PosInfinity] \<noteq> [] \<and>
   Finite 3 \<in> set [Finite 0, Finite 3, Finite (- 2), PosInfinity] \<and>
   ge_length (Finite 3) (length [''public.sales'']) \<and>
   selectTablesStep no_digits [''public.sales'']
       (Some [Finite 0, Finite 3, Finite (- 2), PosInfinity]) =
     Inl (Error ''Invalid table indexes: 3, -2, Infinity. Must be between 0 and 0'') \<and>
   sublist ''3'' ''Invalid table indexes: 3, -2, Infinity. Must be between 0 and 0'' \<and>
   sublist ''-2'' ''Invalid table indexes: 3, -2, Infinity. Must be between 0 and 0'' \<and>
   sublist ''Infinity'' ''Invalid table indexes: 3, -2, Infinity. Must be between 0 and 0'' \<and>
   cr_kpiName out_of_range_resume \<noteq> [] \<and>
   selectedColumnsByTable out_of_range_resume =
     [] @ (''public.sales'', [] @ Finite 5 # [Finite 7]) # [] \<and>
   map_option length (ci_columns sales_columns_input ''public.sales'') = Some 2 \<and>
   ge_length (Finite 5) 2 \<and>
   selectColumnsAndDetailsStep no_digits sales_columns_input (Some out_of_range_resume) =
     Inl (Error ''Invalid column index 5 for table 'public.sales'. Must be between 0 and 1'')"
  using invalid_indexes_named [where fmt = no_digits
      and idxs = "[Finite 0, Finite 3, Finite (- 2), PosInfinity]"
      and tables = "[''public.sales'']"
      and r = out_of_range_resume and pre = "[]" and t = "''public.sales''" and ?is1.0 = "[]"
      and i = "Finite 5" and ?is2.0 = "[Finite 7]" and post = "[]"
      and inp = sales_columns_input
      and cols = "[\<lparr>column_name = ''id'', data_type = ''integer''\<rparr>,
                   \<lparr>column_name = ''amount'', data_type = ''numeric''\<rparr>]"]
  by (simp add: out_of_range_resume_def sales_columns_input_eval Number_toString_small
        lt_zero_def ge_length_def)

section \<open>Suspend and resume in the three workflows\<close>

lemma columnsWithIndexes_total:
  "set ts \<subseteq> dom columns \<Longrightarrow>
   columnsWithIndexes columns ts acc =
     Inr (\<lambda>t. if t \<in> set ts then map_option with_index (columns t) else acc t)"
proof (induction ts arbitrary: acc)
  case Nil
  show ?case by simp
next
  case (Cons x xs)
  from Cons.prems obtain cols where c: "columns x = Some cols" by auto
  from Cons.prems have "set xs \<subseteq> dom columns" by simp
  from Cons.IH [OF this] c
  have "columnsWithIndexes columns (x # xs) acc =
          Inr (\<lambda>t. if t \<in> set xs then map_option with_index (columns t)
                    else (acc(x \<mapsto> with_index cols)) t)"
    by (simp add: read_member_def)
  also have "(\<lambda>t. if t \<in> set xs then map_option with_index (columns t)
                    else (acc(x \<mapsto> with_index cols)) t) =
             (\<lambda>t. if t \<in> set (x # xs) then map_option with_index (columns t) else acc t)"
    using c by (intro ext) simp
  finally show ?case .
qed

lemma dom_listColumns_loop: "dom (listColumns_loop s ts m) = dom m \<union> set ts"
  by (induction ts arbitrary: m) auto

lemma listColumnsStep_covers:
  "set (ci_selectedTables (listColumnsStep s ts)) \<subseteq> dom (ci_columns (listColumnsStep s ts))"
  by (simp add: listColumnsStep_def dom_listColumns_loop)

lemma suspend_columns_payload:
  "set (ci_selectedTables inp) \<subseteq> dom (ci_columns inp) \<Longrightarrow>
   suspend_columns inp =
     Inr (Suspended
       \<lparr>availableColumns =
          (\<lambda>t. if t \<in> set (ci_selectedTables inp)
                then map_option with_index (ci_columns inp t) else None),
        cs_message = select_columns_message\<rparr>)"
  by (simp add: suspend_columns_def columnsWithIndexes_total)

lemma selectTablesStep_paused:
  "selectTablesStep fmt tables None =
     Inr (Suspended \<lparr>availableTables = with_index tables,
                      st_message = select_tables_message\<rparr>) \<and>
   (paused (selectTablesStep fmt tables (Some idxs)) \<longleftrightarrow> idxs = []) \<and>
   (idxs = [] \<longrightarrow> selectTablesStep fmt tables (Some idxs) = selectTablesStep fmt tables None)"
  by (simp add: selectTablesStep_def paused_def)

lemma selectColumnsAndDetailsStep_paused:
  assumes "set (ci_selectedTables inp) \<subseteq> dom (ci_columns inp)"
  shows "selectColumnsAndDetailsStep fmt inp None =
     Inr (Suspended
       \<lparr>availableColumns =
          (\<lambda>t. if t \<in> set (ci_selectedTables inp)
                then map_option with_index (ci_columns inp t) else None),
        cs_message = select_columns_message\<rparr>) \<and>
   (paused (selectColumnsAndDetailsStep fmt inp (Some r)) \<longleftrightarrow> cr_kpiName r = []) \<and>
   (cr_kpiName r = [] \<longrightarrow>
      selectColumnsAndDetailsStep fmt inp (Some r) = selectColumnsAndDetailsStep fmt inp None)"
  using suspend_columns_payload [OF assms]
  by (simp add: selectColumnsAndDetailsStep_def paused_def split: sum.splits)

lemma confirmAndSaveStep_paused:
  "confirmAndSaveStep now inp None s =
     (Suspended \<lparr>su_sqlQuery = cf_sqlQuery inp, su_previewResults = previewResults inp,
                 su_message = confirm_message\<rparr>, s) \<and>
   (paused (Inr (fst (confirmAndSaveStep now inp (Some r) s))) \<longleftrightarrow> \<not> confirmed r) \<and>
   (\<not> confirmed r \<longrightarrow>
      confirmAndSaveStep now inp (Some r) s = confirmAndSaveStep now inp None s)"
  by (simp add: confirmAndSaveStep_def confirm_suspended_def paused_def split_beta)

lemma selectTableStep_paused:
  "selectTableStep tables None =
     Suspended \<lparr>ts_tables = tables, ts_message = select_table_message\<rparr> \<and>
   (paused (Inr (selectTableStep tables (Some n))) \<longleftrightarrow> n = []) \<and>
   (n = [] \<longrightarrow> selectTableStep tables (Some n) = selectTableStep tables None)"
  by (simp add: selectTableStep_def paused_def truthy_def)

lemma defineKPIStep_paused:
  "defineKPIStep gen inp None =
     Inr (Suspended \<lparr>ds_tableName = di_tableName inp, ds_columns = di_columns inp,
                      ds_message = define_message\<rparr>) \<and>
   (paused (defineKPIStep gen inp (Some r)) \<longleftrightarrow> dr_kpiName r = []) \<and>
   (dr_kpiName r = [] \<longrightarrow> defineKPIStep gen inp (Some r) = defineKPIStep gen inp None)"
  by (simp add: defineKPIStep_def define_suspended_def paused_def split: sum.splits)

lemma saveKPIStep_paused:
  "saveKPIStep now inp None s =
     (Suspended \<lparr>ss_sqlQuery = sv_sqlQuery inp, ss_preview = preview inp,
                 ss_message = save_message\<rparr>, s) \<and>
   (paused (Inr (fst (saveKPIStep now inp (Some r) s))) \<longleftrightarrow> \<not> confirmed r) \<and>
   (\<not> confirmed r \<longrightarrow> saveKPIStep now inp (Some r) s = saveKPIStep now inp None s)"
  by (simp add: saveKPIStep_def save_suspended_def paused_def split_beta)

lemma selectKPIStep_paused:
  "selectKPIStep kpis None =
     Inr (Suspended \<lparr>availableKPIs = map ke_name kpis, sk_message = select_kpi_message\<rparr>) \<and>
   (paused (selectKPIStep kpis (Some r)) \<longleftrightarrow> sk_kpiName r = [] \<or> sk_insightName r = []) \<and>
   (sk_kpiName r = [] \<or> sk_insightName r = [] \<longrightarrow>
      selectKPIStep kpis (Some r) = selectKPIStep kpis None)"
  by (auto simp: selectKPIStep_def select_kpi_suspended_def paused_def split: option.splits)

lemma confirmAndSaveInsightStep_paused:
  "confirmAndSaveInsightStep now inp None s =
     Inr (Suspended \<lparr>is_insightText = insightText inp, is_message = insight_message\<rparr>, s) \<and>
   (paused (map_sum id fst (confirmAndSaveInsightStep now inp (Some r) s)) \<longleftrightarrow>
      \<not> ir_confirmed r) \<and>
   (\<not> ir_confirmed r \<longrightarrow>
      confirmAndSaveInsightStep now inp (Some r) s = confirmAndSaveInsightStep now inp None s)"
  by (simp add: confirmAndSaveInsightStep_def insight_suspended_def paused_def
        split: sum.splits prod.splits)


text \<open>
  Claim C2, as the code has it. The claim as stated fails for resume data that match the
  resume schema and hold a falsy value in the field that the step tests before it goes
  on: with \<open>{confirmed: false}\<close> each of the three confirmation steps pauses again and
  stores nothing, and with \<open>{selectedTableIndexes: []}\<close> the table-selection step pauses
  again.
\<close>

theorem resume_data_counterexample:
  "confirmAndSaveStep 5 sales_confirm_input (Some declined) empty_db =
     (Suspended \<lparr>su_sqlQuery = ''SELECT amount FROM public.sales'',
                 su_previewResults = [[(''amount'', ''10'')]],
                 su_message = confirm_message\<rparr>, empty_db) \<and>
   saveKPIStep 5 sales_save_input (Some declined) empty_db =
     (Suspended \<lparr>ss_sqlQuery = ''SELECT amount FROM public.sales'',
                 ss_preview = [[(''amount'', ''10'')]],
                 ss_message = save_message\<rparr>, empty_db) \<and>
   confirmAndSaveInsightStep 5 q1_insight_input (Some insight_declined) sales_db =
     Inr (Suspended \<lparr>is_insightText = ''Sales are flat.'',
                      is_message = insight_message\<rparr>, sales_db) \<and>
   selectTablesStep no_digits [''public.sales''] (Some []) =
     Inr (Suspended \<lparr>availableTables = [(0, ''public.sales'')],
                      st_message = select_tables_message\<rparr>)"
  by (simp add: confirmAndSaveStep_def saveKPIStep_def confirmAndSaveInsightStep_def
        selectTablesStep_def declined_def insight_declined_def sales_confirm_input_def
        sales_save_input_def q1_insight_input_def confirm_suspended_def save_suspended_def
        insight_suspended_def with_index_def)

text \<open>
  Claim C2, amended. Each of the eight steps with a resume schema, given no resume data,
  pauses with its suspend payload, computed from its input. Given resume data, it pauses
  again, with the same payload, exactly when the value its first test reads is falsy:
  an empty \<open>selectedTableIndexes\<close>; an empty \<open>kpiName\<close> (column selection, KPI definition);
  an empty \<open>tableName\<close>; an empty \<open>kpiName\<close> or \<open>insightName\<close> (KPI selection);
  \<open>confirmed = false\<close> (the three confirmation steps). With any other resume data it does
  not pause: it goes on to its output or to an error. For the column-selection step this
  is on inputs in which every selected table has an entry in \<open>columns\<close>, which is what
  \<open>listColumnsStep\<close> hands over.
\<close>

theorem suspend_resume_gates:
  "(selectTablesStep fmt tables None =
      Inr (Suspended \<lparr>availableTables = with_index tables,
                       st_message = select_tables_message\<rparr>) \<and>
    (paused (selectTablesStep fmt tables (Some idxs)) \<longleftrightarrow> idxs = []) \<and>
    (idxs = [] \<longrightarrow> selectTablesStep fmt tables (Some idxs) = selectTablesStep fmt tables None)) \<and>
   (set (ci_selectedTables inp) \<subseteq> dom (ci_columns inp) \<longrightarrow>
      selectColumnsAndDetailsStep fmt inp None =
        Inr (Suspended
          \<lparr>availableColumns =
             (\<lambda>t. if t \<in> set (ci_selectedTables inp)
                   then map_option with_index (ci_columns inp t) else None),
           cs_message = select_columns_message\<rparr>) \<and>
      (paused (selectColumnsAndDetailsStep fmt inp (Some r)) \<longleftrightarrow> cr_kpiName r = []) \<and>
      (cr_kpiName r = [] \<longrightarrow>
         selectColumnsAndDetailsStep fmt inp (Some r) = selectColumnsAndDetailsStep fmt inp None)) \<and>
   set (ci_selectedTables (listColumnsStep s selected)) \<subseteq>
     dom (ci_columns (listColumnsStep s selected)) \<and>
   (confirmAndSaveStep now cinp None s =
      (Suspended \<lparr>su_sqlQuery = cf_sqlQuery cinp, su_previewResults = previewResults cinp,
                  su_message = confirm_message\<rparr>, s) \<and>
    (paused (Inr (fst (confirmAndSaveStep now cinp (Some c) s))) \<longleftrightarrow> \<not> confirmed c) \<and>
    (\<not> confirmed c \<longrightarrow>
       confirmAndSaveStep now cinp (Some c) s = confirmAndSaveStep now cinp None s)) \<and>
   (selectTableStep tables None =
      Suspended \<lparr>ts_tables = tables, ts_message = select_table_message\<rparr> \<and>
    (paused (Inr (selectTableStep tables (Some n))) \<longleftrightarrow> n = []) \<and>
    (n = [] \<longrightarrow> selectTableStep tables (Some n) = selectTableStep tables None)) \<and>
   (defineKPIStep gen dinp None =
      Inr (Suspended \<lparr>ds_tableName = di_tableName dinp, ds_columns = di_columns dinp,
                       ds_message = define_message\<rparr>) \<and>
    (paused (defineKPIStep gen dinp (Some d)) \<longleftrightarrow> dr_kpiName d = []) \<and>
    (dr_kpiName d = [] \<longrightarrow> defineKPIStep gen dinp (Some d) = defineKPIStep gen dinp None)) \<and>
   (saveKPIStep now sinp None s =
      (Suspended \<lparr>ss_sqlQuery = sv_sqlQuery sinp, ss_preview = preview sinp,
                  ss_message = save_message\<rparr>, s) \<and>
    (paused (Inr (fst (saveKPIStep now sinp (Some c) s))) \<longleftrightarrow> \<not> confirmed c) \<and>
    (\<not> confirmed c \<longrightarrow> saveKPIStep now sinp (Some c) s = saveKPIStep now sinp None s)) \<and>
   (selectKPIStep kpis None =
      Inr (Suspended \<lparr>availableKPIs = map ke_name kpis, sk_message = select_kpi_message\<rparr>) \<and>
    (paused (selectKPIStep kpis (Some k)) \<longleftrightarrow> sk_kpiName k = [] \<or> sk_insightName k = []) \<and>
    (sk_kpiName k = [] \<or> sk_insightName k = [] \<longrightarrow>
       selectKPIStep kpis (Some k) = selectKPIStep kpis None)) \<and>
   (confirmAndSaveInsightStep now iinp None s =
      Inr (Suspended \<lparr>is_insightText = insightText iinp, is_message = insight_message\<rparr>, s) \<and>
    (paused (map_sum id fst (confirmAndSaveInsightStep now iinp (Some i) s)) \<longleftrightarrow>
       \<not> ir_confirmed i) \<and>
    (\<not> ir_confirmed i \<longrightarrow>
       confirmAndSaveInsightStep now iinp (Some i) s =
         confirmAndSaveInsightStep now iinp None s))"
  apply (rule conjI, rule selectTablesStep_paused)
  apply (rule conjI, rule impI, erule selectColumnsAndDetailsStep_paused)
  apply (rule conjI, rule listColumnsStep_covers)
  apply (rule conjI, rule confirmAndSaveStep_paused)
  apply (rule conjI, rule selectTableStep_paused)
  apply (rule conjI, rule defineKPIStep_paused)
  apply (rule conjI, rule saveKPIStep_paused)
  apply (rule conjI, rule selectKPIStep_paused)
  apply (rule confirmAndSaveInsightStep_paused)
  done


theorem suspend_resume_gates_witness:
  "set (ci_selectedTables sales_columns_input) \<subseteq> dom (ci_columns sales_columns_input) \<and>
   cr_kpiName unnamed_resume = [] \<and>
   selectColumnsAndDetailsStep no_digits sales_columns_input (Some unnamed_resume) =
     selectColumnsAndDetailsStep no_digits sales_columns_input None \<and>
   \<not> confirmed declined \<and>
   confirmAndSaveStep 5 sales_confirm_input (Some declined) sales_db =
     confirmAndSaveStep 5 sales_confirm_input None sales_db \<and>
   selectTablesStep no_digits [''public.sales''] (Some []) = selectTablesStep no_digits [''public.sales''] None \<and>
   selectTableStep [''public.sales''] (Some []) = selectTableStep [''public.sales''] None \<and>
   dr_kpiName (manual_resume\<lparr>dr_kpiName := []\<rparr>) = [] \<and>
   defineKPIStep count_gen sales_define_input (Some (manual_resume\<lparr>dr_kpiName := []\<rparr>)) =
     defineKPIStep count_gen sales_define_input None \<and>
   saveKPIStep 5 sales_save_input (Some declined) sales_db =
     saveKPIStep 5 sales_save_input None sales_db \<and>
   sk_insightName ghost_resume = [] \<and>
   selectKPIStep sales_kpis (Some ghost_resume) = selectKPIStep sales_kpis None \<and>
   \<not> ir_confirmed insight_declined \<and>
   confirmAndSaveInsightStep 5 q1_insight_input (Some insight_declined) sales_db =
     confirmAndSaveInsightStep 5 q1_insight_input None sales_db \<and>
   \<not> paused (selectTablesStep no_digits [''public.sales''] (Some [Finite 0])) \<and>
   \<not> paused (selectColumnsAndDetailsStep no_digits sales_columns_input (Some amount_resume)) \<and>
   \<not> paused (Inr (fst (confirmAndSaveStep 5 sales_confirm_input (Some accepted) sales_db))) \<and>
   \<not> paused (Inr (selectTableStep [''public.sales''] (Some ''public.sales''))) \<and>
   \<not> paused (defineKPIStep count_gen sales_define_input (Some manual_resume)) \<and>
   \<not> paused (Inr (fst (saveKPIStep 5 sales_save_input (Some accepted) sales_db))) \<and>
   \<not> paused (selectKPIStep sales_kpis (Some q1_check_resume)) \<and>
   \<not> paused (map_sum id fst
        (confirmAndSaveInsightStep 5 q1_insight_input (Some insight_accepted) sales_db))"
proof -
  have sub: "set (ci_selectedTables sales_columns_input) \<subseteq> dom (ci_columns sales_columns_input)"
    by (simp add: sales_columns_input_eval)
  have gates: "cr_kpiName unnamed_resume = []" "\<not> confirmed declined"
    "dr_kpiName (manual_resume\<lparr>dr_kpiName := []\<rparr>) = []" "sk_insightName ghost_resume = []"
    "\<not> ir_confirmed insight_declined"
    by (simp_all add: unnamed_resume_def declined_def ghost_resume_def insight_declined_def)
  have opened: "[Finite 0] \<noteq> []" "cr_kpiName amount_resume \<noteq> []" "confirmed accepted"
    "''public.sales'' \<noteq> []" "dr_kpiName manual_resume \<noteq> []"
    "sk_kpiName q1_check_resume \<noteq> []" "sk_insightName q1_check_resume \<noteq> []"
    "ir_confirmed insight_accepted"
    by (simp_all add: amount_resume_def accepted_def manual_resume_def q1_check_resume_def
          insight_accepted_def)
  from sub gates opened
    suspend_resume_gates [where fmt = no_digits and tables = "[''public.sales'']" and idxs = "[Finite 0]"
      and inp = sales_columns_input and r = amount_resume and s = sales_db
      and selected = "[''public.sales'']" and now = 5 and cinp = sales_confirm_input
      and c = accepted and n = "''public.sales''" and gen = count_gen
      and dinp = sales_define_input and d = manual_resume and sinp = sales_save_input
      and kpis = sales_kpis and k = q1_check_resume and iinp = q1_insight_input
      and i = insight_accepted]
    suspend_resume_gates [where fmt = no_digits and tables = "[''public.sales'']" and idxs = "[]"
      and inp = sales_columns_input and r = unnamed_resume and s = sales_db
      and selected = "[''public.sales'']" and now = 5 and cinp = sales_confirm_input
      and c = declined and n = "[]" and gen = count_gen
      and dinp = sales_define_input and d = "manual_resume\<lparr>dr_kpiName := []\<rparr>"
      and sinp = sales_save_input
      and kpis = sales_kpis and k = ghost_resume and iinp = q1_insight_input
      and i = insight_declined]
  show ?thesis by blast
qed

end
